theory Spec2Isabelle
  imports Complex_Main
begin

section \<open>Futures bot: signal detection and order sizing\<close>

text \<open>
  A shallow embedding of \<^verbatim>\<open>botfuturosbinance.py\<close> (class \<^verbatim>\<open>FuturesBot\<close>).
  A Python float is kept as the real number it denotes, and every float operation of the
  sizing code rounds its exact result to the nearest binary64 number (subsection
  \<open>Python numerics\<close>). \<^verbatim>\<open>math.floor\<close> rounds towards minus infinity and a float
  division by zero raises \<^verbatim>\<open>ZeroDivisionError\<close>.
\<close>

subsection \<open>Exceptions\<close>

text \<open>
  \<^verbatim>\<open>except BinanceAPIException\<close> catches only the first constructor,
  \<^verbatim>\<open>except Exception\<close> catches all of them. \<open>Other_exception\<close> stands for any
  other exception class a client call may raise (a network failure, for instance).
\<close>

datatype exn =
    BinanceAPIException string
  | ZeroDivisionError
  | TypeError
  | ValueError
  | IndexError
  | Other_exception string

fun is_api_exception :: "exn \<Rightarrow> bool" where
  "is_api_exception (BinanceAPIException m) = True"
| "is_api_exception e = False"

subsection \<open>Python numerics\<close>

definition round_half_even :: "real \<Rightarrow> int" where
  "round_half_even x =
     (let f = \<lfloor>x\<rfloor>; d = x - of_int f
      in if d < 1 / 2 then f
         else if 1 / 2 < d then f + 1
         else if even f then f else f + 1)"

text \<open>
  IEEE 754 binary64, round to nearest, ties to even. A number of magnitude in
  \<open>[2\<^sup>k, 2\<^sup>k\<^sup>+\<^sup>1)\<close> is rounded to a multiple of \<open>2\<^sup>k\<^sup>-\<^sup>5\<^sup>2\<close>, and below
  \<open>2\<^sup>-\<^sup>1\<^sup>0\<^sup>2\<^sup>2\<close> to a multiple of \<open>2\<^sup>-\<^sup>1\<^sup>0\<^sup>7\<^sup>4\<close> (gradual underflow). A result of
  magnitude \<open>2\<^sup>1\<^sup>0\<^sup>2\<^sup>4\<close> or more, where Python continues with an infinity, and NaN
  are outside the model.
\<close>

definition float_ulp :: "real \<Rightarrow> real" where
  "float_ulp x = 2 powi (max (\<lfloor>log 2 \<bar>x\<bar>\<rfloor> - 52) (- 1074))"

definition float_round :: "real \<Rightarrow> real" where
  "float_round x =
     (if x = 0 then 0 else of_int (round_half_even (x / float_ulp x)) * float_ulp x)"

text \<open>
  \<^verbatim>\<open>float(s)\<close> on the string of a decimal number, \<^verbatim>\<open>x * y\<close> and \<^verbatim>\<open>x / y\<close> on
  floats (the caller has excluded \<^verbatim>\<open>y == 0\<close>), and the conversion of an integer
  that meets a float in a product.
\<close>

definition py_float :: "real \<Rightarrow> real" where
  "py_float x = float_round x"

definition float_mul :: "real \<Rightarrow> real \<Rightarrow> real" where
  "float_mul x y = float_round (x * y)"

definition float_div :: "real \<Rightarrow> real \<Rightarrow> real" where
  "float_div x y = float_round (x / y)"

definition float_of_int :: "int \<Rightarrow> real" where
  "float_of_int n = float_round (of_int n)"

text \<open>
  \<^verbatim>\<open>round(x, n)\<close> on a float, for an integer \<open>n\<close> of either sign: the exact value of
  \<open>x\<close> is rounded half to even at \<open>n\<close> decimal places (\<open>round_decimal\<close>), and the
  result is the float nearest to that decimal.
\<close>

definition round_decimal :: "real \<Rightarrow> int \<Rightarrow> real" where
  "round_decimal x n =
     (if 0 \<le> n then of_int (round_half_even (x * 10 ^ nat n)) / 10 ^ nat n
      else of_int (round_half_even (x / 10 ^ nat (- n))) * 10 ^ nat (- n))"

definition py_round :: "real \<Rightarrow> int \<Rightarrow> real" where
  "py_round x n = float_round (round_decimal x n)"

text \<open>\<^verbatim>\<open>int(x)\<close> on a float truncates towards zero.\<close>

definition py_int :: "real \<Rightarrow> int" where
  "py_int x = (if 0 \<le> x then \<lfloor>x\<rfloor> else \<lceil>x\<rceil>)"

text \<open>
  \<^verbatim>\<open>math.log(x, b)\<close> is the float quotient of the two natural logarithms; the
  logarithms of the C library are taken as correctly rounded. The caller has excluded
  \<open>x \<le> 0\<close>.
\<close>

definition math_log :: "real \<Rightarrow> real \<Rightarrow> real" where
  "math_log x b = float_div (float_round (ln x)) (float_round (ln b))"

subsection \<open>Signals and indicator rows\<close>

text \<open>
  The strings \<^verbatim>\<open>"LONG"\<close> and \<^verbatim>\<open>"SHORT"\<close>; Python's \<^verbatim>\<open>None\<close> (the spec's NONE)
  is \<open>None :: signal option\<close>.
\<close>

datatype signal = LONG | SHORT

text \<open>A row of the data frame after \<^verbatim>\<open>calculate_ema\<close>.\<close>

record row =
  close :: real
  ema_fast :: real
  ema_slow :: real

text \<open>
  \<^verbatim>\<open>df.iloc[-1]\<close> and \<^verbatim>\<open>df.iloc[-2]\<close> are read only when \<^verbatim>\<open>len(df) >= 2\<close>.
\<close>

definition determine_signal :: "row list \<Rightarrow> signal option" where
  "determine_signal df =
     (if length df < 2 then None
      else
        let last_row = df ! (length df - 1);
            prev_row = df ! (length df - 2);
            prev_diff = ema_fast prev_row - ema_slow prev_row;
            current_diff = ema_fast last_row - ema_slow last_row
        in if prev_diff \<le> 0 \<and> 0 < current_diff then Some LONG
           else if 0 \<le> prev_diff \<and> current_diff < 0 then Some SHORT
           else None)"

subsection \<open>Symbol metadata\<close>

text \<open>
  An entry of \<^verbatim>\<open>symbol_info['filters']\<close>; \<open>stepSize\<close> is the number that the string
  \<^verbatim>\<open>f['stepSize']\<close> denotes, read only for the \<^verbatim>\<open>LOT_SIZE\<close> filter.
\<close>

record lot_filter =
  filterType :: string
  stepSize :: real

text \<open>
  \<open>quantityPrecision = None\<close>: the key is absent or holds \<^verbatim>\<open>None\<close>.
\<close>

record symbol_info =
  quantityPrecision :: "int option"
  filters :: "lot_filter list"

text \<open>
  The loop over the filters: \<^verbatim>\<open>float(f['stepSize'])\<close> of the first
  \<^verbatim>\<open>LOT_SIZE\<close> filter.
\<close>

fun lot_step_size :: "lot_filter list \<Rightarrow> real option" where
  "lot_step_size [] = None"
| "lot_step_size (f # fs) =
     (if filterType f = ''LOT_SIZE'' then Some (py_float (stepSize f)) else lot_step_size fs)"

subsection \<open>The audit log\<close>

text \<open>
  One constructor for each \<^verbatim>\<open>self.log(event, details)\<close> of the source, carrying
  the values its details interpolate. The timestamp is not modelled.
\<close>

datatype event =
    Leverage_set
  | Error_setting_leverage exn
  | Error_fetching_klines exn
  | Error_fetching_balance exn
  | Round_quantity_no_step real
      \<comment> \<open>"round_quantity", "Step size no encontrado; usando ..."\<close>
  | Round_quantity real real "int option" real
      \<comment> \<open>"round_quantity": quantity, step size, quantity precision, final quantity\<close>
  | Error_rounding_quantity exn
  | Order_placed signal real real
  | Error_placing_order exn
  | Trailing_stop_placed real
  | Error_placing_trailing_stop exn
  | Retrying_trailing_stop real
  | Trailing_stop_placed_on_retry real
  | Error_placing_trailing_stop_on_retry exn
  | Trailing_stop_check_exists
      \<comment> \<open>"Trailing stop check", "Ya existe una orden de trailing stop activa."\<close>
  | Trailing_stop_check_missing
      \<comment> \<open>"Trailing stop check", "No se encontro trailing stop. Colocando uno."\<close>
  | Trailing_stop_action_success
      \<comment> \<open>"Trailing stop action", "Trailing stop colocado exitosamente."\<close>
  | Error_checking_trailing_stop exn
  | Canceled_stop_loss_order
  | Error_managing_stop_orders exn
  | Attempting_reconnection
  | Reconnection_successful
  | Reconnection_failed exn
  | Position_check
  | No_signal
  | Error_in_main_loop exn

subsection \<open>Rounding a quantity to the lot size\<close>

text \<open>
  The body of the \<^verbatim>\<open>try\<close> of \<^verbatim>\<open>round_quantity\<close>, given what
  \<^verbatim>\<open>client.get_symbol_info\<close> answered: the value returned and the event logged,
  or the exception raised. A symbol the exchange does not know gives \<^verbatim>\<open>None\<close>,
  and \<^verbatim>\<open>"quantityPrecision" in None\<close> raises \<^verbatim>\<open>TypeError\<close>;
  \<^verbatim>\<open>math.log\<close> raises \<^verbatim>\<open>ValueError\<close> outside its domain.
\<close>

definition round_quantity_try ::
  "string \<Rightarrow> exn + symbol_info option \<Rightarrow> real \<Rightarrow> exn + real \<times> event" where
  "round_quantity_try symbol_name resp quantity =
     (case resp of
        Inl e \<Rightarrow> Inl e
      | Inr None \<Rightarrow> Inl TypeError
      | Inr (Some info) \<Rightarrow>
          (let quantity_precision =
                 (if symbol_name = ''SOLUSDT'' \<and> quantityPrecision info = None then Some 2
                  else quantityPrecision info)
           in (case lot_step_size (filters info) of
                 None \<Rightarrow>
                   (let rounded = py_round quantity
                          (case quantity_precision of Some p \<Rightarrow> p | None \<Rightarrow> 3)
                    in Inr (rounded, Round_quantity_no_step rounded))
               | Some step_size \<Rightarrow>
                   (if step_size = 0 then Inl ZeroDivisionError
                    else
                      (let rounded_quantity =
                             float_mul (float_of_int \<lfloor>float_div quantity step_size\<rfloor>) step_size
                       in (case quantity_precision of
                             Some p \<Rightarrow>
                               (let final_quantity = py_round rounded_quantity p
                                in Inr (final_quantity,
                                     Round_quantity quantity step_size quantity_precision
                                       final_quantity))
                           | None \<Rightarrow>
                               (if step_size \<le> 0 then Inl ValueError
                                else
                                  (let precision = py_int (py_round (- math_log step_size 10) 0);
                                       final_quantity = py_round rounded_quantity precision
                                   in Inr (final_quantity,
                                        Round_quantity quantity step_size quantity_precision
                                          final_quantity)))))))))"

text \<open>
  What \<^verbatim>\<open>round_quantity\<close> returns: the \<^verbatim>\<open>except Exception\<close> branch returns
  \<^verbatim>\<open>round(quantity, 3)\<close>.
\<close>

definition round_quantity_value :: "string \<Rightarrow> exn + symbol_info option \<Rightarrow> real \<Rightarrow> real" where
  "round_quantity_value symbol_name resp quantity =
     (case round_quantity_try symbol_name resp quantity of
        Inr (v, ev) \<Rightarrow> v
      | Inl e \<Rightarrow> py_round quantity 3)"

text \<open>
  What \<^verbatim>\<open>calculate_order_quantity\<close> returns for a balance and an answer of
  \<^verbatim>\<open>get_symbol_info\<close>. The division is outside any \<^verbatim>\<open>try\<close>, so a zero entry
  price raises.
\<close>

definition calculate_order_quantity_value ::
  "string \<Rightarrow> real \<Rightarrow> real \<Rightarrow> real \<Rightarrow> exn + symbol_info option \<Rightarrow> real \<Rightarrow> exn + real" where
  "calculate_order_quantity_value symbol_name balance capital_fraction lev resp entry_price =
     (let capital_to_use = float_mul balance capital_fraction
      in if entry_price = 0 then Inl ZeroDivisionError
         else
           let quantity = float_div (float_mul capital_to_use lev) entry_price
           in Inr (round_quantity_value symbol_name resp quantity))"

text \<open>
  The symbol metadata with both filters of the spec available: the step size is the
  number in the exchange's string (\<^verbatim>\<open>"0.01"\<close> is \<open>1 / 100\<close>).
\<close>

definition symbol_filters :: "real \<Rightarrow> int \<Rightarrow> exn + symbol_info option" where
  "symbol_filters step_size quantity_precision =
     Inr (Some \<lparr>quantityPrecision = Some quantity_precision,
                filters = [\<lparr>filterType = ''LOT_SIZE'', stepSize = step_size\<rparr>]\<rparr>)"

text \<open>
  Half a unit of the last decimal place kept by \<^verbatim>\<open>round(x, n)\<close>: the largest
  distance between \<open>x\<close> and \<open>round_decimal x n\<close>.
\<close>

definition rounding_tolerance :: "int \<Rightarrow> real" where
  "rounding_tolerance n = (if 0 \<le> n then 1 / (2 * 10 ^ nat n) else 10 ^ nat (- n) / 2)"


section \<open>The bot and the exchange\<close>

subsection \<open>Data of the exchange\<close>

text \<open>
  An open order as \<^verbatim>\<open>futures_get_open_orders\<close> lists it; \<open>order_type\<close> is the
  field \<^verbatim>\<open>order['type']\<close>.
\<close>

record order =
  orderId :: int
  order_type :: string

text \<open>
  An entry of \<^verbatim>\<open>futures_account_balance()\<close>; \<open>availableBalance\<close> is the number
  that the string \<^verbatim>\<open>asset['availableBalance']\<close> denotes.
\<close>

record asset_balance =
  asset :: string
  availableBalance :: real

text \<open>
  An entry of \<^verbatim>\<open>futures_position_information\<close>; \<open>positionAmt\<close> is the number
  that the string \<^verbatim>\<open>pos['positionAmt']\<close> denotes.
\<close>

record position =
  position_symbol :: string
  positionAmt :: real

datatype side = SIDE_BUY | SIDE_SELL

text \<open>The keyword arguments of \<^verbatim>\<open>futures_create_order\<close>.\<close>

record order_request =
  request_symbol :: string
  request_side :: side
  request_type :: string
  request_quantity :: real
  callbackRate :: "real option"
  timeInForce :: "string option"
  reduceOnly :: bool

text \<open>
  The fields of \<^verbatim>\<open>self\<close> set by the constructor; \<open>leverage\<close> and
  \<open>base_capital_pct\<close> are the values they have as floats.
\<close>

record config =
  symbol :: string
  leverage :: real
  base_capital_pct :: real
  fast_ema_period :: nat
  slow_ema_period :: nat
  interval :: string

subsection \<open>The client\<close>

text \<open>The calls the bot makes on \<^verbatim>\<open>self.client\<close>, with their arguments.\<close>

datatype call =
    Client_init
  | Futures_change_leverage string real
  | Futures_klines string string nat
  | Futures_account_balance
  | Get_symbol_info string
  | Futures_position_information string
  | Futures_create_order order_request
  | Futures_get_open_orders string
  | Futures_cancel_order string int

text \<open>
  The exchange is an oracle: for each method of the client, the answers it will give to
  the coming calls, in order; an answer is a value or an exception. \<open>calls\<close> is the
  trace of the calls made so far and \<open>log\<close> the audit log written so far.
\<close>

record world =
  client_init_responses :: "(exn + unit) list"
  change_leverage_responses :: "(exn + unit) list"
  klines_responses :: "(exn + real list) list"
  balance_responses :: "(exn + asset_balance list) list"
  symbol_info_responses :: "(exn + symbol_info option) list"
  position_responses :: "(exn + position list) list"
  create_order_responses :: "(exn + order) list"
  open_orders_responses :: "(exn + order list) list"
  cancel_order_responses :: "(exn + unit) list"
  calls :: "call list"
  log :: "event list"

text \<open>A call with no answer left fails like a call that got no reply.\<close>

definition next_response :: "(exn + 'a) list \<Rightarrow> exn + 'a" where
  "next_response rs = (case rs of [] \<Rightarrow> Inl (Other_exception ''no response'') | r # rest \<Rightarrow> r)"

definition client_init :: "world \<Rightarrow> (exn + unit) \<times> world" where
  "client_init w =
     (next_response (client_init_responses w),
      w\<lparr>client_init_responses := tl (client_init_responses w),
        calls := calls w @ [Client_init]\<rparr>)"

definition futures_change_leverage :: "string \<Rightarrow> real \<Rightarrow> world \<Rightarrow> (exn + unit) \<times> world" where
  "futures_change_leverage sy lev w =
     (next_response (change_leverage_responses w),
      w\<lparr>change_leverage_responses := tl (change_leverage_responses w),
        calls := calls w @ [Futures_change_leverage sy lev]\<rparr>)"

definition futures_klines :: "string \<Rightarrow> string \<Rightarrow> nat \<Rightarrow> world \<Rightarrow> (exn + real list) \<times> world" where
  "futures_klines sy itv limit w =
     (next_response (klines_responses w),
      w\<lparr>klines_responses := tl (klines_responses w),
        calls := calls w @ [Futures_klines sy itv limit]\<rparr>)"

definition futures_account_balance :: "world \<Rightarrow> (exn + asset_balance list) \<times> world" where
  "futures_account_balance w =
     (next_response (balance_responses w),
      w\<lparr>balance_responses := tl (balance_responses w),
        calls := calls w @ [Futures_account_balance]\<rparr>)"

definition get_symbol_info :: "string \<Rightarrow> world \<Rightarrow> (exn + symbol_info option) \<times> world" where
  "get_symbol_info sy w =
     (next_response (symbol_info_responses w),
      w\<lparr>symbol_info_responses := tl (symbol_info_responses w),
        calls := calls w @ [Get_symbol_info sy]\<rparr>)"

definition futures_position_information :: "string \<Rightarrow> world \<Rightarrow> (exn + position list) \<times> world" where
  "futures_position_information sy w =
     (next_response (position_responses w),
      w\<lparr>position_responses := tl (position_responses w),
        calls := calls w @ [Futures_position_information sy]\<rparr>)"

definition futures_create_order :: "order_request \<Rightarrow> world \<Rightarrow> (exn + order) \<times> world" where
  "futures_create_order req w =
     (next_response (create_order_responses w),
      w\<lparr>create_order_responses := tl (create_order_responses w),
        calls := calls w @ [Futures_create_order req]\<rparr>)"

definition futures_get_open_orders :: "string \<Rightarrow> world \<Rightarrow> (exn + order list) \<times> world" where
  "futures_get_open_orders sy w =
     (next_response (open_orders_responses w),
      w\<lparr>open_orders_responses := tl (open_orders_responses w),
        calls := calls w @ [Futures_get_open_orders sy]\<rparr>)"

definition futures_cancel_order :: "string \<Rightarrow> int \<Rightarrow> world \<Rightarrow> (exn + unit) \<times> world" where
  "futures_cancel_order sy oid w =
     (next_response (cancel_order_responses w),
      w\<lparr>cancel_order_responses := tl (cancel_order_responses w),
        calls := calls w @ [Futures_cancel_order sy oid]\<rparr>)"

text \<open>\<^verbatim>\<open>self.log(event, details)\<close>: one more record in the audit log.\<close>

definition log_event :: "event \<Rightarrow> world \<Rightarrow> world" where
  "log_event ev w = w\<lparr>log := log w @ [ev]\<rparr>"

text \<open>What the trace says was submitted and cancelled, in order.\<close>

fun create_requests :: "call list \<Rightarrow> order_request list" where
  "create_requests [] = []"
| "create_requests (Futures_create_order req # cs) = req # create_requests cs"
| "create_requests (c # cs) = create_requests cs"

fun cancel_requests :: "call list \<Rightarrow> int list" where
  "cancel_requests [] = []"
| "cancel_requests (Futures_cancel_order sy oid # cs) = oid # cancel_requests cs"
| "cancel_requests (c # cs) = cancel_requests cs"


subsection \<open>The methods of the bot\<close>

text \<open>
  A method takes the world and returns its result with the new world; a method that can
  let an exception escape returns \<open>Inl\<close> of it. Writing the CSV file and sleeping are
  not modelled.
\<close>

definition set_leverage :: "config \<Rightarrow> world \<Rightarrow> (exn + unit) \<times> world" where
  "set_leverage cfg w =
     (case futures_change_leverage (symbol cfg) (leverage cfg) w of
        (Inr response, w1) \<Rightarrow> (Inr (), log_event Leverage_set w1)
      | (Inl e, w1) \<Rightarrow>
          if is_api_exception e then (Inr (), log_event (Error_setting_leverage e) w1)
          else (Inl e, w1))"

text \<open>
  The data frame is the column of closing prices after \<^verbatim>\<open>pd.to_numeric\<close>, as
  floats; any exception gives \<^verbatim>\<open>None\<close>.
\<close>

definition get_klines :: "config \<Rightarrow> nat \<Rightarrow> world \<Rightarrow> real list option \<times> world" where
  "get_klines cfg limit w =
     (case futures_klines (symbol cfg) (interval cfg) limit w of
        (Inr klines, w1) \<Rightarrow> (Some klines, w1)
      | (Inl e, w1) \<Rightarrow> (None, log_event (Error_fetching_klines e) w1))"

text \<open>
  \<^verbatim>\<open>ewm(span=P, adjust=False).mean()\<close>: the first value seeds the average, then
  \<open>y\<^sub>t = (1 - \<alpha>) * y\<^sub>t\<^sub>-\<^sub>1 + \<alpha> * x\<^sub>t\<close> with \<open>\<alpha> = 2 / (P + 1)\<close>. pandas
  raises \<^verbatim>\<open>ValueError\<close> for a span below 1. The averages are the exact ones: only
  the sign of their difference is used, in \<open>determine_signal\<close>.
\<close>

fun ewm_from :: "real \<Rightarrow> real \<Rightarrow> real list \<Rightarrow> real list" where
  "ewm_from \<alpha> y [] = []"
| "ewm_from \<alpha> y (x # xs) = (let y' = (1 - \<alpha>) * y + \<alpha> * x in y' # ewm_from \<alpha> y' xs)"

definition ewm_mean :: "nat \<Rightarrow> real list \<Rightarrow> real list" where
  "ewm_mean period xs =
     (case xs of [] \<Rightarrow> [] | x # rest \<Rightarrow> x # ewm_from (2 / (real period + 1)) x rest)"

definition calculate_ema :: "config \<Rightarrow> real list \<Rightarrow> exn + row list" where
  "calculate_ema cfg df =
     (if fast_ema_period cfg < 1 \<or> slow_ema_period cfg < 1 then Inl ValueError
      else Inr (map (\<lambda>(c, f, s). \<lparr>close = c, ema_fast = f, ema_slow = s\<rparr>)
                  (zip df (zip (ewm_mean (fast_ema_period cfg) df)
                               (ewm_mean (slow_ema_period cfg) df)))))"

definition get_available_balance :: "world \<Rightarrow> real \<times> world" where
  "get_available_balance w =
     (case futures_account_balance w of
        (Inr balance_data, w1) \<Rightarrow>
          (case find (\<lambda>a. asset a = ''USDT'') balance_data of
             Some a \<Rightarrow> (py_float (availableBalance a), w1)
           | None \<Rightarrow> (0, w1))
      | (Inl e, w1) \<Rightarrow> (0, log_event (Error_fetching_balance e) w1))"

definition round_quantity :: "config \<Rightarrow> real \<Rightarrow> world \<Rightarrow> real \<times> world" where
  "round_quantity cfg quantity w =
     (case get_symbol_info (symbol cfg) w of
        (resp, w1) \<Rightarrow>
          (case round_quantity_try (symbol cfg) resp quantity of
             Inr (v, ev) \<Rightarrow> (v, log_event ev w1)
           | Inl e \<Rightarrow> (py_round quantity 3, log_event (Error_rounding_quantity e) w1)))"

definition calculate_order_quantity :: "config \<Rightarrow> real \<Rightarrow> world \<Rightarrow> (exn + real) \<times> world" where
  "calculate_order_quantity cfg entry_price w =
     (case get_available_balance w of
        (balance, w1) \<Rightarrow>
          (let capital_to_use = float_mul balance (base_capital_pct cfg)
           in if entry_price = 0 then (Inl ZeroDivisionError, w1)
              else
                (let quantity = float_div (float_mul capital_to_use (leverage cfg)) entry_price
                 in (case round_quantity cfg quantity w1 of (q, w2) \<Rightarrow> (Inr q, w2)))))"

text \<open>The request of \<^verbatim>\<open>place_order\<close>: a market order that may open a position.\<close>

definition market_order_request :: "config \<Rightarrow> signal \<Rightarrow> real \<Rightarrow> order_request" where
  "market_order_request cfg sg quantity =
     \<lparr>request_symbol = symbol cfg,
      request_side = (if sg = LONG then SIDE_BUY else SIDE_SELL),
      request_type = ''MARKET'', request_quantity = quantity,
      callbackRate = None, timeInForce = None, reduceOnly = False\<rparr>"

definition place_order ::
  "config \<Rightarrow> signal \<Rightarrow> real \<Rightarrow> world \<Rightarrow> (exn + order option) \<times> world" where
  "place_order cfg sg entry_price w =
     (case calculate_order_quantity cfg entry_price w of
        (Inl e, w1) \<Rightarrow> (Inl e, w1)
      | (Inr quantity, w1) \<Rightarrow>
          (case futures_create_order (market_order_request cfg sg quantity) w1 of
             (Inr ord, w2) \<Rightarrow>
               (Inr (Some ord), log_event (Order_placed sg quantity entry_price) w2)
           | (Inl e, w2) \<Rightarrow>
               if is_api_exception e
               then (Inr None, log_event (Error_placing_order e) w2)
               else (Inl e, w2)))"

text \<open>
  The request of \<^verbatim>\<open>place_trailing_stop\<close>; its two submissions differ only in the
  callback rate.
\<close>

definition trailing_stop_request :: "config \<Rightarrow> signal \<Rightarrow> real \<Rightarrow> real \<Rightarrow> order_request" where
  "trailing_stop_request cfg sg quantity rate =
     \<lparr>request_symbol = symbol cfg,
      request_side = (if sg = LONG then SIDE_SELL else SIDE_BUY),
      request_type = ''TRAILING_STOP_MARKET'', request_quantity = quantity,
      callbackRate = Some rate, timeInForce = Some ''GTC'', reduceOnly = True\<rparr>"

definition place_trailing_stop ::
  "config \<Rightarrow> signal \<Rightarrow> real \<Rightarrow> world \<Rightarrow> (exn + order option) \<times> world" where
  "place_trailing_stop cfg sg quantity0 w =
     (case round_quantity cfg quantity0 w of
        (quantity, w1) \<Rightarrow>
          (case futures_create_order (trailing_stop_request cfg sg quantity 1) w1 of
             (Inr ord, w2) \<Rightarrow> (Inr (Some ord), log_event (Trailing_stop_placed quantity) w2)
           | (Inl e, w2) \<Rightarrow>
               if is_api_exception e
               then
                 (let w3 = log_event (Error_placing_trailing_stop e) w2;
                      w4 = log_event (Retrying_trailing_stop quantity) w3
                  in (case futures_create_order
                             (trailing_stop_request cfg sg quantity (1 / 2)) w4 of
                        (Inr ord, w5) \<Rightarrow>
                          (Inr (Some ord), log_event (Trailing_stop_placed_on_retry quantity) w5)
                      | (Inl e2, w5) \<Rightarrow>
                          if is_api_exception e2
                          then (Inr None,
                                log_event (Error_placing_trailing_stop_on_retry e2) w5)
                          else (Inl e2, w5)))
               else (Inl e, w2)))"

definition check_and_place_trailing_stop ::
  "config \<Rightarrow> signal \<Rightarrow> real \<Rightarrow> world \<Rightarrow> (exn + unit) \<times> world" where
  "check_and_place_trailing_stop cfg sg quantity w =
     (case futures_get_open_orders (symbol cfg) w of
        (Inr open_orders, w1) \<Rightarrow>
          (let has_trailing =
                 list_ex (\<lambda>ord. order_type ord = ''TRAILING_STOP_MARKET'') open_orders
           in if has_trailing then (Inr (), log_event Trailing_stop_check_exists w1)
              else
                (case place_trailing_stop cfg sg quantity
                        (log_event Trailing_stop_check_missing w1) of
                   (Inr placed, w2) \<Rightarrow> (Inr (), log_event Trailing_stop_action_success w2)
                 | (Inl e, w2) \<Rightarrow>
                     if is_api_exception e
                     then (Inr (), log_event (Error_checking_trailing_stop e) w2)
                     else (Inl e, w2)))
      | (Inl e, w1) \<Rightarrow>
          if is_api_exception e then (Inr (), log_event (Error_checking_trailing_stop e) w1)
          else (Inl e, w1))"

text \<open>
  The loop of \<^verbatim>\<open>manage_stop_orders\<close>: each order of a type overwrites the one
  remembered before, so the last one listed of each type is kept.
\<close>

fun scan_stop_orders ::
  "order list \<Rightarrow> order option \<times> order option \<Rightarrow> order option \<times> order option" where
  "scan_stop_orders [] (stop_market_order, trailing_stop_order) =
     (stop_market_order, trailing_stop_order)"
| "scan_stop_orders (ord # rest) (stop_market_order, trailing_stop_order) =
     scan_stop_orders rest
       (if order_type ord = ''STOP_MARKET'' then Some ord else stop_market_order,
        if order_type ord = ''TRAILING_STOP_MARKET'' then Some ord else trailing_stop_order)"

definition manage_stop_orders :: "config \<Rightarrow> signal \<Rightarrow> world \<Rightarrow> (exn + unit) \<times> world" where
  "manage_stop_orders cfg sg w =
     (case futures_get_open_orders (symbol cfg) w of
        (Inr open_orders, w1) \<Rightarrow>
          (case scan_stop_orders open_orders (None, None) of
             (Some stop_market_order, Some trailing_stop_order) \<Rightarrow>
               (case futures_cancel_order (symbol cfg) (orderId stop_market_order) w1 of
                  (Inr response, w2) \<Rightarrow> (Inr (), log_event Canceled_stop_loss_order w2)
                | (Inl e, w2) \<Rightarrow>
                    if is_api_exception e
                    then (Inr (), log_event (Error_managing_stop_orders e) w2)
                    else (Inl e, w2))
           | (Some stop_market_order, None) \<Rightarrow> (Inr (), w1)
           | (None, trailing_stop_order) \<Rightarrow> (Inr (), w1))
      | (Inl e, w1) \<Rightarrow>
          if is_api_exception e then (Inr (), log_event (Error_managing_stop_orders e) w1)
          else (Inl e, w1))"

definition reconnect :: "config \<Rightarrow> world \<Rightarrow> world" where
  "reconnect cfg w =
     (let w1 = log_event Attempting_reconnection w
      in (case client_init w1 of
            (Inl e, w2) \<Rightarrow> log_event (Reconnection_failed e) w2
          | (Inr client, w2) \<Rightarrow>
              (case set_leverage cfg w2 of
                 (Inl e, w3) \<Rightarrow> log_event (Reconnection_failed e) w3
               | (Inr u, w3) \<Rightarrow> log_event Reconnection_successful w3)))"

text \<open>
  The \<^verbatim>\<open>try\<close> block of one iteration of \<^verbatim>\<open>run\<close>. \<^verbatim>\<open>df.iloc[-1]\<close> is read
  only under a signal, which needs two rows; \<^verbatim>\<open>float(pos['positionAmt'])\<close> is
  \<open>py_float (positionAmt pos)\<close>.
\<close>

definition run_try :: "config \<Rightarrow> world \<Rightarrow> (exn + unit) \<times> world" where
  "run_try cfg w =
     (case get_klines cfg 100 w of
        (None, w1) \<Rightarrow> (Inr (), w1)
      | (Some klines, w1) \<Rightarrow>
          (case calculate_ema cfg klines of
             Inl e \<Rightarrow> (Inl e, w1)
           | Inr df \<Rightarrow>
               (let signal0 = determine_signal df
                in (case futures_position_information (symbol cfg) w1 of
                      (Inl e, w2) \<Rightarrow> (Inl e, w2)
                    | (Inr positions, w2) \<Rightarrow>
                        (case filter (\<lambda>pos. position_symbol pos = symbol cfg
                                              \<and> py_float (positionAmt pos) \<noteq> 0) positions of
                           open_position # others \<Rightarrow>
                             (let w3 = log_event Position_check w2
                              in (case round_quantity cfg
                                         \<bar>py_float (positionAmt open_position)\<bar> w3 of
                                    (pos_qty, w4) \<Rightarrow>
                                      (let sg = (case signal0 of
                                                   None \<Rightarrow>
                                                     if 0 < py_float (positionAmt open_position)
                                                     then LONG else SHORT
                                                 | Some s \<Rightarrow> s)
                                       in check_and_place_trailing_stop cfg sg pos_qty w4)))
                         | [] \<Rightarrow>
                             (case signal0 of
                                Some sg \<Rightarrow>
                                  (if df = [] then (Inl IndexError, w2)
                                   else
                                     (let entry_price = close (last df)
                                      in (case place_order cfg sg entry_price w2 of
                                            (Inl e, w3) \<Rightarrow> (Inl e, w3)
                                          | (Inr None, w3) \<Rightarrow> (Inr (), w3)
                                          | (Inr (Some ord), w3) \<Rightarrow>
                                              (case calculate_order_quantity cfg entry_price w3 of
                                                 (Inl e, w4) \<Rightarrow> (Inl e, w4)
                                               | (Inr quantity, w4) \<Rightarrow>
                                                   (case place_trailing_stop cfg sg quantity w4 of
                                                      (Inl e, w5) \<Rightarrow> (Inl e, w5)
                                                    | (Inr placed, w5) \<Rightarrow>
                                                        manage_stop_orders cfg sg w5)))))
                              | None \<Rightarrow> (Inr (), log_event No_signal w2)))))))"

text \<open>
  One iteration of the loop of \<^verbatim>\<open>run\<close>: the \<^verbatim>\<open>try\<close> block and its
  \<^verbatim>\<open>except Exception\<close> handler.
\<close>

definition run_iteration :: "config \<Rightarrow> world \<Rightarrow> world" where
  "run_iteration cfg w =
     (case run_try cfg w of
        (Inr u, w1) \<Rightarrow> w1
      | (Inl e, w1) \<Rightarrow> reconnect cfg (log_event (Error_in_main_loop e) w1))"

text \<open>
  \<^verbatim>\<open>while True\<close> never ends by itself; \<open>run n\<close> is the world after \<open>n\<close>
  iterations.
\<close>

fun run :: "nat \<Rightarrow> config \<Rightarrow> world \<Rightarrow> world" where
  "run 0 cfg w = w"
| "run (Suc n) cfg w = run n cfg (run_iteration cfg w)"

text \<open>
  The exchange side of an acknowledged cancellation: the order with that identifier
  leaves the open orders of the symbol.
\<close>

definition orders_after_cancel :: "int \<Rightarrow> order list \<Rightarrow> order list" where
  "orders_after_cancel oid open_orders = filter (\<lambda>ord. orderId ord \<noteq> oid) open_orders"


subsection \<open>Observations used in the statements\<close>

text \<open>The event \<^verbatim>\<open>round_quantity\<close> logs, given the answer of the client.\<close>

definition round_quantity_event :: "string \<Rightarrow> exn + symbol_info option \<Rightarrow> real \<Rightarrow> event" where
  "round_quantity_event symbol_name resp quantity =
     (case round_quantity_try symbol_name resp quantity of
        Inr (v, ev) \<Rightarrow> ev
      | Inl e \<Rightarrow> Error_rounding_quantity e)"

text \<open>
  What \<^verbatim>\<open>get_available_balance\<close> returns and logs, given the answer of the client.
\<close>

definition available_balance_value :: "exn + asset_balance list \<Rightarrow> real" where
  "available_balance_value resp =
     (case resp of
        Inr balance_data \<Rightarrow>
          (case find (\<lambda>a. asset a = ''USDT'') balance_data of
             Some a \<Rightarrow> py_float (availableBalance a) | None \<Rightarrow> 0)
      | Inl e \<Rightarrow> 0)"

definition available_balance_events :: "exn + asset_balance list \<Rightarrow> event list" where
  "available_balance_events resp =
     (case resp of Inr balance_data \<Rightarrow> [] | Inl e \<Rightarrow> [Error_fetching_balance e])"

text \<open>
  The requests \<^verbatim>\<open>place_trailing_stop\<close> submits, given the answers waiting for
  \<^verbatim>\<open>futures_create_order\<close>, and whether it returns (an order or \<^verbatim>\<open>None\<close>)
  rather than letting an exception escape. Lemmas \<open>place_trailing_stop_calls\<close> and
  \<open>place_trailing_stop_returns\<close> relate them to the method.
\<close>

definition trailing_stop_submissions ::
  "config \<Rightarrow> signal \<Rightarrow> real \<Rightarrow> (exn + order) list \<Rightarrow> order_request list" where
  "trailing_stop_submissions cfg sg quantity rs =
     (case next_response rs of
        Inr ord \<Rightarrow> [trailing_stop_request cfg sg quantity 1]
      | Inl e \<Rightarrow>
          if is_api_exception e
          then [trailing_stop_request cfg sg quantity 1,
                trailing_stop_request cfg sg quantity (1 / 2)]
          else [trailing_stop_request cfg sg quantity 1])"

definition placement_returns :: "(exn + order) list \<Rightarrow> bool" where
  "placement_returns rs =
     (case next_response rs of
        Inr ord \<Rightarrow> True
      | Inl e \<Rightarrow>
          is_api_exception e
          \<and> (case next_response (tl rs) of Inr ord \<Rightarrow> True | Inl e2 \<Rightarrow> is_api_exception e2))"

text \<open>
  The normalisation in the words of the spec, on exact numbers: the raw value
  \<open>balance * capital_fraction * lev / entry_price\<close> truncated towards zero to a multiple
  of the step size, then rounded to the quantity precision. The section on order sizing
  compares it with what the code returns.
\<close>

definition spec_compute_quantity ::
  "real \<Rightarrow> real \<Rightarrow> real \<Rightarrow> real \<Rightarrow> real \<Rightarrow> int \<Rightarrow> real" where
  "spec_compute_quantity balance capital_fraction lev entry_price step_size quantity_precision =
     round_decimal
       (of_int (py_int (balance * capital_fraction * lev / entry_price / step_size)) * step_size)
       quantity_precision"

text \<open>
  The constructor's defaults with the leverage of the main program, and an exchange with
  no answer yet, for the examples.
\<close>

definition default_config :: config where
  "default_config =
     \<lparr>symbol = ''ETHUSDT'', leverage = 10, base_capital_pct = py_float (95 / 100),
      fast_ema_period = 40, slow_ema_period = 99, interval = ''5m''\<rparr>"

definition no_responses :: world where
  "no_responses =
     \<lparr>client_init_responses = [], change_leverage_responses = [], klines_responses = [],
      balance_responses = [], symbol_info_responses = [], position_responses = [],
      create_order_responses = [], open_orders_responses = [], cancel_order_responses = [],
      calls = [], log = []\<rparr>"


subsection \<open>Example worlds\<close>

text \<open>
  Scenario D of the spec: a fixed stop and a trailing stop are open, the cancellation is
  acknowledged and the next listing shows what is left.
\<close>

definition conflict_world :: world where
  "conflict_world =
     no_responses\<lparr>open_orders_responses :=
         [Inr [\<lparr>orderId = 11, order_type = ''STOP_MARKET''\<rparr>,
               \<lparr>orderId = 12, order_type = ''TRAILING_STOP_MARKET''\<rparr>],
          Inr [\<lparr>orderId = 12, order_type = ''TRAILING_STOP_MARKET''\<rparr>]],
       cancel_order_responses := [Inr ()]\<rparr>"

text \<open>Two fixed stops and a trailing stop; every cancellation is acknowledged.\<close>

definition two_stops_world :: world where
  "two_stops_world =
     no_responses\<lparr>open_orders_responses :=
         [Inr [\<lparr>orderId = 1, order_type = ''STOP_MARKET''\<rparr>,
               \<lparr>orderId = 2, order_type = ''STOP_MARKET''\<rparr>,
               \<lparr>orderId = 3, order_type = ''TRAILING_STOP_MARKET''\<rparr>],
          Inr (orders_after_cancel 2
                [\<lparr>orderId = 1, order_type = ''STOP_MARKET''\<rparr>,
                 \<lparr>orderId = 2, order_type = ''STOP_MARKET''\<rparr>,
                 \<lparr>orderId = 3, order_type = ''TRAILING_STOP_MARKET''\<rparr>])],
       cancel_order_responses := [Inr (), Inr ()]\<rparr>"

text \<open>The first trailing stop is rejected and the retry is accepted.\<close>

definition retry_world :: world where
  "retry_world =
     no_responses\<lparr>symbol_info_responses := [symbol_filters (1 / 100) 2],
       create_order_responses :=
         [Inl (BinanceAPIException ''rejected''),
          Inr \<lparr>orderId = 7, order_type = ''TRAILING_STOP_MARKET''\<rparr>]\<rparr>"

text \<open>No order is open and both trailing stops are rejected.\<close>

definition rejecting_world :: world where
  "rejecting_world =
     no_responses\<lparr>symbol_info_responses := [symbol_filters (1 / 100) 2],
       create_order_responses :=
         [Inl (BinanceAPIException ''rejected''),
          Inl (BinanceAPIException ''rejected again'')],
       open_orders_responses := [Inr []]\<rparr>"


text \<open>
  No position, closing prices 1 then 2 (the fast average crosses above the slow one), a
  balance of 1000 that the entry lowers to 900, every order accepted.
\<close>

definition long_entry_world :: world where
  "long_entry_world =
     no_responses\<lparr>klines_responses := [Inr [1, 2]],
       balance_responses :=
         [Inr [\<lparr>asset = ''USDT'', availableBalance = 1000\<rparr>],
          Inr [\<lparr>asset = ''USDT'', availableBalance = 900\<rparr>]],
       symbol_info_responses :=
         [symbol_filters (1 / 100) 2, symbol_filters (1 / 100) 2, symbol_filters (1 / 100) 2],
       position_responses := [Inr []],
       create_order_responses :=
         [Inr \<lparr>orderId = 31, order_type = ''MARKET''\<rparr>,
          Inr \<lparr>orderId = 32, order_type = ''TRAILING_STOP_MARKET''\<rparr>],
       open_orders_responses :=
         [Inr [\<lparr>orderId = 32, order_type = ''TRAILING_STOP_MARKET''\<rparr>]]\<rparr>"

text \<open>
  No position, closing prices 1 then 0 (the fast average crosses below the slow one), and
  a reconnection that succeeds.
\<close>

definition zero_price_world :: world where
  "zero_price_world =
     no_responses\<lparr>client_init_responses := [Inr ()],
       change_leverage_responses := [Inr ()],
       klines_responses := [Inr [1, 0]],
       balance_responses := [Inr [\<lparr>asset = ''USDT'', availableBalance = 1000\<rparr>]],
       position_responses := [Inr []]\<rparr>"


text \<open>As \<open>long_entry_world\<close>, with a balance of 900.05 after the entry.\<close>

definition second_balance_world :: world where
  "second_balance_world =
     no_responses\<lparr>klines_responses := [Inr [1, 2]],
       balance_responses :=
         [Inr [\<lparr>asset = ''USDT'', availableBalance = 1000\<rparr>],
          Inr [\<lparr>asset = ''USDT'', availableBalance = 90005 / 100\<rparr>]],
       symbol_info_responses :=
         [symbol_filters (1 / 100) 2, symbol_filters (1 / 100) 2, symbol_filters (1 / 100) 2],
       position_responses := [Inr []],
       create_order_responses :=
         [Inr \<lparr>orderId = 31, order_type = ''MARKET''\<rparr>,
          Inr \<lparr>orderId = 32, order_type = ''TRAILING_STOP_MARKET''\<rparr>],
       open_orders_responses :=
         [Inr [\<lparr>orderId = 32, order_type = ''TRAILING_STOP_MARKET''\<rparr>]]\<rparr>"

text \<open>
  As \<open>long_entry_world\<close>, but the submission of the trailing stop fails with an
  exception that is not a \<^verbatim>\<open>BinanceAPIException\<close>; the reconnection succeeds.
\<close>

definition failing_stop_world :: world where
  "failing_stop_world =
     no_responses\<lparr>client_init_responses := [Inr ()],
       change_leverage_responses := [Inr ()],
       klines_responses := [Inr [1, 2]],
       balance_responses :=
         [Inr [\<lparr>asset = ''USDT'', availableBalance = 1000\<rparr>],
          Inr [\<lparr>asset = ''USDT'', availableBalance = 900\<rparr>]],
       symbol_info_responses :=
         [symbol_filters (1 / 100) 2, symbol_filters (1 / 100) 2, symbol_filters (1 / 100) 2],
       position_responses := [Inr []],
       create_order_responses :=
         [Inr \<lparr>orderId = 31, order_type = ''MARKET''\<rparr>, Inl (Other_exception ''timed out'')],
       open_orders_responses := [Inr []]\<rparr>"

text \<open>
  No order is open and the submission of the trailing stop fails with an exception that
  is not a \<^verbatim>\<open>BinanceAPIException\<close>.
\<close>

definition failing_placement_world :: world where
  "failing_placement_world =
     no_responses\<lparr>symbol_info_responses := [symbol_filters (1 / 100) 2],
       create_order_responses := [Inl (Other_exception ''timed out'')],
       open_orders_responses := [Inr []]\<rparr>"

section \<open>Properties of the numeric functions\<close>

subsection \<open>Rounding to an integer\<close>

lemma rhe_cases: "round_half_even x = \<lfloor>x\<rfloor> \<or> round_half_even x = \<lfloor>x\<rfloor> + 1"
  by (simp add: round_half_even_def Let_def)

lemma rhe_lower: "x - 1 / 2 \<le> of_int (round_half_even x)"
  unfolding round_half_even_def Let_def by (auto; linarith)

lemma rhe_upper: "of_int (round_half_even x) \<le> x + 1 / 2"
  unfolding round_half_even_def Let_def by (auto; linarith)

lemma rhe_of_int: "round_half_even (of_int n) = n"
  by (simp add: round_half_even_def Let_def)

lemma rhe_mono: assumes "x \<le> y" shows "round_half_even x \<le> round_half_even y"
proof (cases "\<lfloor>x\<rfloor> < \<lfloor>y\<rfloor>")
  case True
  have "round_half_even x \<le> \<lfloor>x\<rfloor> + 1" using rhe_cases [of x] by auto
  also have "\<dots> \<le> \<lfloor>y\<rfloor>" using True by simp
  also have "\<dots> \<le> round_half_even y" using rhe_cases [of y] by auto
  finally show ?thesis .
next
  case False
  then have eq: "\<lfloor>x\<rfloor> = \<lfloor>y\<rfloor>" using floor_mono [OF assms] by simp
  then have "x - of_int \<lfloor>x\<rfloor> \<le> y - of_int \<lfloor>y\<rfloor>" using assms by simp
  then show ?thesis using eq unfolding round_half_even_def Let_def by auto
qed

lemma rhe_minus: "round_half_even (- x) = - round_half_even x"
proof (cases "x = of_int \<lfloor>x\<rfloor>")
  case True
  then obtain n where n: "x = of_int n" ..
  then have "- x = of_int (- n)" by simp
  then show ?thesis using rhe_of_int [of "- n"] rhe_of_int [of n] n by simp
next
  case False
  then have c: "\<lceil>x\<rceil> = \<lfloor>x\<rfloor> + 1" by (simp add: ceiling_altdef)
  have f: "\<lfloor>- x\<rfloor> = - \<lfloor>x\<rfloor> - 1" using c by (simp add: ceiling_def)
  show ?thesis
    unfolding round_half_even_def Let_def f
    by (auto simp: algebra_simps)
qed

subsection \<open>Rounding to a float\<close>

lemma float_ulp_pos: "0 < float_ulp x"
  by (simp add: float_ulp_def)

lemma float_ulp_minus: "float_ulp (- x) = float_ulp x"
  by (simp add: float_ulp_def)

lemma float_round_0: "float_round 0 = 0"
  by (simp add: float_round_def)

lemma float_round_minus: "float_round (- x) = - float_round x"
  by (simp add: float_round_def float_ulp_minus rhe_minus)

lemma float_round_nonneg: "0 \<le> x \<Longrightarrow> 0 \<le> float_round x"
  using rhe_mono [of 0 "x / float_ulp x"] rhe_of_int [of 0] float_ulp_pos [of x]
  by (simp add: float_round_def)

lemma floor_log2_bounds:
  assumes "0 < x"
  shows "2 powi \<lfloor>Transcendental.log 2 x\<rfloor> \<le> x" and "x < 2 powi (\<lfloor>Transcendental.log 2 x\<rfloor> + 1)"
proof -
  have "\<lfloor>Transcendental.log 2 x\<rfloor> = \<lfloor>Transcendental.log 2 x\<rfloor>" by simp
  then have "2 powr real_of_int \<lfloor>Transcendental.log 2 x\<rfloor> \<le> x \<and> x < 2 powr (real_of_int \<lfloor>Transcendental.log 2 x\<rfloor> + 1)"
    using assms floor_log_eq_powr_iff [of x 2 "\<lfloor>Transcendental.log 2 x\<rfloor>"] by simp
  then show "2 powi \<lfloor>Transcendental.log 2 x\<rfloor> \<le> x" and "x < 2 powi (\<lfloor>Transcendental.log 2 x\<rfloor> + 1)"
    using powr_real_of_int' [of 2 "\<lfloor>Transcendental.log 2 x\<rfloor>"] powr_real_of_int' [of 2 "\<lfloor>Transcendental.log 2 x\<rfloor> + 1"]
    by simp_all
qed

lemma floor_log2_eqI:
  assumes "2 powi k \<le> x" "x < 2 powi (k + 1)"
  shows "\<lfloor>Transcendental.log 2 x\<rfloor> = k"
proof -
  have pos: "0 < x" using assms(1) zero_less_power_int [of "2::real" k] by linarith
  have "2 powr real_of_int k \<le> x \<and> x < 2 powr (real_of_int k + 1)"
    using assms powr_real_of_int' [of 2 k] powr_real_of_int' [of 2 "k + 1"] by simp
  then show ?thesis using floor_log_eq_powr_iff [OF pos, of 2 k] by simp
qed

lemma pow2_less_iff: "(2::real) powi a < 2 powi b \<longleftrightarrow> a < b"
  using power_int_strict_increasing [of a b "2::real"] power_int_increasing [of b a "2::real"]
  by (cases "a < b") auto

lemma pow2_le_iff: "(2::real) powi a \<le> 2 powi b \<longleftrightarrow> a \<le> b"
  using power_int_strict_increasing [of b a "2::real"] power_int_increasing [of a b "2::real"]
  by (cases "a \<le> b") auto

lemma float_round_eqI:
  assumes "2 powi k \<le> \<bar>x\<bar>" "\<bar>x\<bar> < 2 powi (k + 1)" "- 1022 \<le> k"
    and "of_int (round_half_even (x / 2 powi (k - 52))) * 2 powi (k - 52) = v"
  shows "float_round x = v"
proof -
  have "\<lfloor>Transcendental.log 2 \<bar>x\<bar>\<rfloor> = k" using assms(1,2) by (rule floor_log2_eqI)
  then have "float_ulp x = 2 powi (k - 52)" using assms(3) by (simp add: float_ulp_def)
  moreover have "x \<noteq> 0"
  proof
    assume "x = 0"
    with assms(1) have "(2::real) powi k \<le> 0" by simp
    moreover have "0 < (2::real) powi k" by simp
    ultimately show False by linarith
  qed
  ultimately show ?thesis using assms(4) by (simp add: float_round_def)
qed

lemma power_int_nonneg_of_int:
  assumes "0 \<le> j" shows "(2::real) powi j = of_int (2 ^ nat j)"
  using assms by (simp add: power_int_def)

lemma float_round_of_int:
  assumes "\<bar>n\<bar> < 2 ^ 53"
  shows "float_round (of_int n) = of_int n"
proof (cases "n = 0")
  case True
  then show ?thesis by (simp add: float_round_0)
next
  case False
  define k where "k = \<lfloor>Transcendental.log 2 \<bar>real_of_int n\<bar>\<rfloor>"
  have pos: "0 < \<bar>real_of_int n\<bar>" using False by simp
  have lo: "2 powi k \<le> \<bar>real_of_int n\<bar>" and hi: "\<bar>real_of_int n\<bar> < 2 powi (k + 1)"
    unfolding k_def using floor_log2_bounds [OF pos] by simp_all
  have "1 \<le> \<bar>n\<bar>" using False by simp
  then have "1 \<le> real_of_int \<bar>n\<bar>" by (simp only: of_int_1_le_iff)
  then have "(2::real) powi 0 < 2 powi (k + 1)" using hi by simp
  then have "0 < k + 1" by (rule iffD1 [OF pow2_less_iff])
  then have k0: "0 \<le> k" by simp
  have "real_of_int \<bar>n\<bar> < real_of_int (2 ^ 53)" using assms by (simp only: of_int_less_iff)
  then have "\<bar>real_of_int n\<bar> < 2 powi 53" by simp
  with lo have "(2::real) powi k < 2 powi 53" by linarith
  then have "k < 53" by (rule iffD1 [OF pow2_less_iff])
  then have k52: "k \<le> 52" by simp
  have ulp: "float_ulp (of_int n) = 2 powi (k - 52)"
    using k0 by (simp add: float_ulp_def k_def)
  have "real_of_int n / 2 powi (k - 52) = of_int n * 2 powi (52 - k)"
    by (simp add: power_int_diff field_simps)
  also have "\<dots> = of_int (n * 2 ^ nat (52 - k))"
    using k52 by (simp add: power_int_nonneg_of_int)
  finally have "round_half_even (real_of_int n / 2 powi (k - 52)) = n * 2 ^ nat (52 - k)"
    by (simp only: rhe_of_int)
  then have "float_round (of_int n) = of_int (n * 2 ^ nat (52 - k)) * 2 powi (k - 52)"
    using False by (simp add: float_round_def ulp)
  also have "\<dots> = of_int n * (2 powi (52 - k) * 2 powi (k - 52))"
    using k52 by (simp add: power_int_nonneg_of_int)
  also have "\<dots> = of_int n"
    by (simp add: power_int_add [symmetric])
  finally show ?thesis .
qed

lemma float_round_mono_pos:
  assumes "0 < x" "x \<le> y"
  shows "float_round x \<le> float_round y"
proof -
  define kx where "kx = \<lfloor>Transcendental.log 2 x\<rfloor>"
  define ky where "ky = \<lfloor>Transcendental.log 2 y\<rfloor>"
  define ex where "ex = max (kx - 52) (- 1074)"
  define ey where "ey = max (ky - 52) (- 1074)"
  have ypos: "0 < y" using assms by linarith
  have ux: "float_ulp x = 2 powi ex" and uy: "float_ulp y = 2 powi ey"
    using assms ypos by (simp_all add: float_ulp_def ex_def ey_def kx_def ky_def)
  have fx: "float_round x = of_int (round_half_even (x / 2 powi ex)) * 2 powi ex"
    and fy: "float_round y = of_int (round_half_even (y / 2 powi ey)) * 2 powi ey"
    using assms ypos by (simp_all add: float_round_def ux uy)
  have "Transcendental.log 2 x \<le> Transcendental.log 2 y" using assms by simp
  then have kxy: "kx \<le> ky" unfolding kx_def ky_def by (rule floor_mono)
  then have exy: "ex \<le> ey" by (simp add: ex_def ey_def)
  show ?thesis
  proof (cases "ex = ey")
    case True
    have "x / 2 powi ey \<le> y / 2 powi ey" using assms by (simp add: divide_right_mono)
    then have "round_half_even (x / 2 powi ey) \<le> round_half_even (y / 2 powi ey)"
      by (rule rhe_mono)
    then show ?thesis unfolding fx fy True by (simp add: mult_right_mono)
  next
    case False
    with exy have lt: "ex < ey" by simp
    then have ey: "ey = ky - 52" and kk: "kx < ky" by (auto simp: ex_def ey_def)
    define B where "B = (2::real) powi ky"
    have "x < 2 powi (kx + 1)" unfolding kx_def using floor_log2_bounds(2) [OF assms(1)] .
    also have "\<dots> \<le> B" unfolding B_def using kk by (simp add: pow2_le_iff)
    finally have xB: "x \<le> B" by simp
    have By: "B \<le> y" unfolding B_def ky_def using floor_log2_bounds(1) [OF ypos] .
    have j: "0 \<le> ky - ex" using lt ey by simp
    have "B / 2 powi ex = 2 powi (ky - ex)" unfolding B_def by (simp add: power_int_diff)
    also have "\<dots> = of_int (2 ^ nat (ky - ex))" using j by (rule power_int_nonneg_of_int)
    finally have Bx: "B / 2 powi ex = of_int (2 ^ nat (ky - ex))" .
    have "x / 2 powi ex \<le> B / 2 powi ex" using xB by (simp add: divide_right_mono)
    then have "round_half_even (x / 2 powi ex) \<le> round_half_even (B / 2 powi ex)"
      by (rule rhe_mono)
    also have "\<dots> = 2 ^ nat (ky - ex)" unfolding Bx by (rule rhe_of_int)
    finally have "real_of_int (round_half_even (x / 2 powi ex)) \<le> of_int (2 ^ nat (ky - ex))"
      by (simp only: of_int_le_iff)
    then have "float_round x \<le> of_int (2 ^ nat (ky - ex)) * 2 powi ex"
      unfolding fx by (intro mult_right_mono) simp_all
    also have "\<dots> = B" unfolding Bx [symmetric] by simp
    finally have le1: "float_round x \<le> B" .
    have "B / 2 powi ey = 2 powi 52" unfolding B_def ey by (simp add: power_int_diff)
    also have "\<dots> = of_int (2 ^ 52)" by simp
    finally have Be: "B / 2 powi ey = of_int (2 ^ 52)" .
    have "B / 2 powi ey \<le> y / 2 powi ey" using By by (simp add: divide_right_mono)
    then have "round_half_even (B / 2 powi ey) \<le> round_half_even (y / 2 powi ey)"
      by (rule rhe_mono)
    then have "2 ^ 52 \<le> round_half_even (y / 2 powi ey)"
      unfolding Be by (simp only: rhe_of_int)
    then have "real_of_int (2 ^ 52) \<le> of_int (round_half_even (y / 2 powi ey))"
      by (simp only: of_int_le_iff)
    then have "of_int (2 ^ 52) * 2 powi ey \<le> float_round y"
      unfolding fy by (intro mult_right_mono) simp_all
    moreover have "of_int (2 ^ 52) * 2 powi ey = B" unfolding Be [symmetric] by simp
    ultimately have le2: "B \<le> float_round y" by simp
    from le1 le2 show ?thesis by linarith
  qed
qed

lemma float_round_mono:
  assumes "x \<le> y"
  shows "float_round x \<le> float_round y"
proof -
  consider "0 < x" | "x \<le> 0" "0 \<le> y" | "y < 0" by linarith
  then show ?thesis
  proof cases
    case 1
    then show ?thesis using assms by (rule float_round_mono_pos)
  next
    case 2
    have "float_round x \<le> 0"
      using float_round_nonneg [of "- x"] 2(1) by (simp add: float_round_minus)
    moreover have "0 \<le> float_round y" using 2(2) by (rule float_round_nonneg)
    ultimately show ?thesis by linarith
  next
    case 3
    then have "0 < - y" "- y \<le> - x" using assms by simp_all
    then have "float_round (- y) \<le> float_round (- x)" by (rule float_round_mono_pos)
    then show ?thesis by (simp add: float_round_minus)
  qed
qed


subsection \<open>Python's round\<close>

lemma round_decimal_mono: "x \<le> y \<Longrightarrow> round_decimal x n \<le> round_decimal y n"
  unfolding round_decimal_def
  by (auto intro!: divide_right_mono mult_right_mono rhe_mono)

lemma round_decimal_zero: "round_decimal 0 n = 0"
  using rhe_of_int [of 0] by (simp add: round_decimal_def)

lemma round_decimal_error: "\<bar>round_decimal x n - x\<bar> \<le> rounding_tolerance n"
proof (cases "0 \<le> n")
  case True
  define k where "k = (10::real) ^ nat n"
  define r where "r = real_of_int (round_half_even (x * k))"
  have k: "0 < k" by (simp add: k_def)
  have "\<bar>r - x * k\<bar> \<le> 1 / 2"
    unfolding r_def using rhe_lower [of "x * k"] rhe_upper [of "x * k"] by linarith
  then have "\<bar>r - x * k\<bar> / k \<le> (1 / 2) / k"
    using k by (intro divide_right_mono) simp_all
  moreover have "\<bar>r - x * k\<bar> / k = \<bar>r / k - x\<bar>"
    using k by (simp add: abs_div_pos diff_divide_distrib)
  ultimately have "\<bar>r / k - x\<bar> \<le> 1 / (2 * k)" by simp
  then show ?thesis
    using True unfolding round_decimal_def rounding_tolerance_def k_def r_def by simp
next
  case False
  define k where "k = (10::real) ^ nat (- n)"
  define r where "r = real_of_int (round_half_even (x / k))"
  have k: "0 < k" by (simp add: k_def)
  have "\<bar>r - x / k\<bar> \<le> 1 / 2"
    unfolding r_def using rhe_lower [of "x / k"] rhe_upper [of "x / k"] by linarith
  then have "\<bar>r - x / k\<bar> * k \<le> (1 / 2) * k"
    using k by (intro mult_right_mono) simp_all
  moreover have "\<bar>r - x / k\<bar> * k = \<bar>r * k - x\<bar>"
    using k by (simp add: abs_mult_pos left_diff_distrib)
  ultimately have "\<bar>r * k - x\<bar> \<le> k / 2" by simp
  then show ?thesis
    using False unfolding round_decimal_def rounding_tolerance_def k_def r_def by simp
qed

lemma py_round_mono: "x \<le> y \<Longrightarrow> py_round x n \<le> py_round y n"
  unfolding py_round_def by (intro float_round_mono round_decimal_mono)

lemma py_round_zero: "py_round 0 n = 0"
  by (simp add: py_round_def round_decimal_zero float_round_0)

subsection \<open>The sizing functions\<close>

lemma float_mul_zero: "float_mul 0 y = 0" "float_mul x 0 = 0"
  by (simp_all add: float_mul_def float_round_0)

lemma float_div_zero: "float_div 0 y = 0"
  by (simp add: float_div_def float_round_0)

lemma float_of_int_zero: "float_of_int 0 = 0"
  by (simp add: float_of_int_def float_round_0)

lemma float_mul_nonneg: "0 \<le> x \<Longrightarrow> 0 \<le> y \<Longrightarrow> 0 \<le> float_mul x y"
  unfolding float_mul_def by (intro float_round_nonneg mult_nonneg_nonneg)

lemma float_mul_mono_left: "0 \<le> z \<Longrightarrow> x \<le> y \<Longrightarrow> float_mul x z \<le> float_mul y z"
  unfolding float_mul_def by (intro float_round_mono mult_right_mono)

lemma float_mul_mono_right: "0 \<le> z \<Longrightarrow> x \<le> y \<Longrightarrow> float_mul z x \<le> float_mul z y"
  unfolding float_mul_def by (intro float_round_mono mult_left_mono)

lemma float_div_mono_left: "0 < z \<Longrightarrow> x \<le> y \<Longrightarrow> float_div x z \<le> float_div y z"
  unfolding float_div_def by (intro float_round_mono divide_right_mono) simp_all

lemma float_div_antimono_right:
  "0 \<le> z \<Longrightarrow> 0 < x \<Longrightarrow> x \<le> y \<Longrightarrow> float_div z y \<le> float_div z x"
  unfolding float_div_def by (intro float_round_mono divide_left_mono) simp_all

lemma float_of_int_mono: "m \<le> n \<Longrightarrow> float_of_int m \<le> float_of_int n"
  unfolding float_of_int_def by (intro float_round_mono) simp

lemma floor_step_mono:
  assumes "s \<noteq> 0" "q1 \<le> q2"
  shows "float_mul (float_of_int \<lfloor>float_div q1 s\<rfloor>) s
           \<le> float_mul (float_of_int \<lfloor>float_div q2 s\<rfloor>) s"
proof (cases "0 < s")
  case True
  then have "float_div q1 s \<le> float_div q2 s" using assms by (simp add: float_div_mono_left)
  then have "\<lfloor>float_div q1 s\<rfloor> \<le> \<lfloor>float_div q2 s\<rfloor>" by (rule floor_mono)
  then have "float_of_int \<lfloor>float_div q1 s\<rfloor> \<le> float_of_int \<lfloor>float_div q2 s\<rfloor>"
    by (rule float_of_int_mono)
  then show ?thesis using True by (simp add: float_mul_mono_left)
next
  case False
  then have s: "s < 0" using assms by simp
  then have "q2 / s \<le> q1 / s" using assms by (simp add: divide_right_mono_neg)
  then have "float_div q2 s \<le> float_div q1 s" unfolding float_div_def by (rule float_round_mono)
  then have "\<lfloor>float_div q2 s\<rfloor> \<le> \<lfloor>float_div q1 s\<rfloor>" by (rule floor_mono)
  then have "float_of_int \<lfloor>float_div q2 s\<rfloor> \<le> float_of_int \<lfloor>float_div q1 s\<rfloor>"
    by (rule float_of_int_mono)
  then have "float_of_int \<lfloor>float_div q1 s\<rfloor> * s \<le> float_of_int \<lfloor>float_div q2 s\<rfloor> * s"
    using s by (simp add: mult_right_mono_neg)
  then show ?thesis unfolding float_mul_def by (rule float_round_mono)
qed

lemma round_quantity_value_mono:
  "q1 \<le> q2 \<Longrightarrow> round_quantity_value sy resp q1 \<le> round_quantity_value sy resp q2"
  unfolding round_quantity_value_def round_quantity_try_def Let_def
  by (auto split: sum.splits option.splits intro!: py_round_mono floor_step_mono)

lemma round_quantity_value_zero: "round_quantity_value sy resp 0 = 0"
  unfolding round_quantity_value_def round_quantity_try_def Let_def
  by (auto split: sum.splits option.splits
      simp: py_round_zero float_div_zero float_of_int_zero float_mul_zero)

lemma round_quantity_value_nonneg: "0 \<le> q \<Longrightarrow> 0 \<le> round_quantity_value sy resp q"
  using round_quantity_value_mono [of 0 q sy resp] by (simp add: round_quantity_value_zero)

lemma round_quantity_value_filters:
  "py_float s \<noteq> 0 \<Longrightarrow>
   round_quantity_value sy (symbol_filters s n) q
     = py_round (float_mul (float_of_int \<lfloor>float_div q (py_float s)\<rfloor>) (py_float s)) n"
  by (simp add: round_quantity_value_def round_quantity_try_def symbol_filters_def Let_def)

lemma calculate_order_quantity_value_Inr:
  "entry_price \<noteq> 0 \<Longrightarrow>
   calculate_order_quantity_value sy balance pct lev resp entry_price
     = Inr (round_quantity_value sy resp
              (float_div (float_mul (float_mul balance pct) lev) entry_price))"
  by (simp add: calculate_order_quantity_value_def Let_def)

lemma raw_quantity_mono_balance:
  assumes "0 < p" "0 \<le> pct" "0 \<le> lev" "b1 \<le> b2"
  shows "float_div (float_mul (float_mul b1 pct) lev) p
           \<le> float_div (float_mul (float_mul b2 pct) lev) p"
  using assms by (intro float_div_mono_left float_mul_mono_left)

lemma raw_quantity_mono_leverage:
  assumes "0 < p" "0 \<le> b" "0 \<le> pct" "l1 \<le> l2"
  shows "float_div (float_mul (float_mul b pct) l1) p
           \<le> float_div (float_mul (float_mul b pct) l2) p"
  using assms by (intro float_div_mono_left float_mul_mono_right float_mul_nonneg)

lemma raw_quantity_antimono_price:
  assumes "0 < p1" "p1 \<le> p2" "0 \<le> b" "0 \<le> pct" "0 \<le> lev"
  shows "float_div (float_mul (float_mul b pct) lev) p2
           \<le> float_div (float_mul (float_mul b pct) lev) p1"
  using assms by (intro float_div_antimono_right float_mul_nonneg)

lemma raw_quantity_nonneg:
  assumes "0 < p" "0 \<le> b" "0 \<le> pct" "0 \<le> lev"
  shows "0 \<le> float_div (float_mul (float_mul b pct) lev) p"
  using float_div_mono_left [of p 0 "float_mul (float_mul b pct) lev"] assms
  by (simp add: float_div_zero float_mul_nonneg)

subsection \<open>Values at sample inputs\<close>

text \<open>
  The sizing code evaluated step by step: each step names the binary exponent of the
  exact result, and \<open>float_round_eqI\<close> rounds it at that exponent.
\<close>

lemma py_float_cent: "py_float (1 / 100) = 5764607523034235 / 576460752303423488"
  unfolding py_float_def by (rule float_round_eqI [where k
      = "- 7"]) (simp_all add: round_half_even_def)

lemma py_float_95: "py_float (95 / 100) = 4278419646001971 / 4503599627370496"
  unfolding py_float_def by (rule float_round_eqI [where k
      = "- 1"]) (simp_all add: round_half_even_def)

lemma py_float_29: "py_float (29 / 100) = 5224175567749775 / 18014398509481984"
  unfolding py_float_def by (rule float_round_eqI [where k
      = "- 2"]) (simp_all add: round_half_even_def)

lemma py_float_295: "py_float (295 / 1000) = 5314247560297185 / 18014398509481984"
  unfolding py_float_def by (rule float_round_eqI [where k
      = "- 2"]) (simp_all add: round_half_even_def)




lemma py_float_minus_34: "py_float (- 34 / 100) = - (6124895493223875 / 18014398509481984)"
  unfolding py_float_def by (rule float_round_eqI [where k
      = "- 2"]) (simp_all add: round_half_even_def)

lemma py_float_5699: "py_float (5699 / 100) = 8020629461370143 / 140737488355328"
  unfolding py_float_def by (rule float_round_eqI [where k
      = "5"]) (simp_all add: round_half_even_def)

lemma py_float_90005: "py_float (90005 / 100) = 3958461762319155 / 4398046511104"
  unfolding py_float_def by (rule float_round_eqI [where k
      = "9"]) (simp_all add: round_half_even_def)

lemma py_float_427522: "py_float (427522 / 100) = 4700654101300511 / 1099511627776"
  unfolding py_float_def by (rule float_round_eqI [where k
      = "12"]) (simp_all add: round_half_even_def)

lemma py_float_427523: "py_float (427523 / 100) = 1175166274104197 / 274877906944"
  unfolding py_float_def by (rule float_round_eqI [where k
      = "12"]) (simp_all add: round_half_even_def)

lemma py_float_1000: "py_float 1000 = 1000"
  unfolding py_float_def using float_round_of_int [of "1000"] by simp

lemma py_float_900: "py_float 900 = 900"
  unfolding py_float_def using float_round_of_int [of "900"] by simp


lemma round_quantity_value_5:
  "round_quantity_value sy (symbol_filters (1 / 100) 2) 5
     = 5"
proof -
  have t1: "float_div 5 (5764607523034235 / 576460752303423488) = 500"
    unfolding float_div_def by (rule float_round_eqI [where k
        = "8"]) (simp_all add: round_half_even_def)
  have fm: "\<lfloor>500 :: real\<rfloor> = 500"
    by simp
  have t2: "float_of_int 500 = 500"
    unfolding float_of_int_def using float_round_of_int [of "500"] by simp
  have t3: "float_mul 500 (5764607523034235 / 576460752303423488) = 5"
    unfolding float_mul_def by (rule float_round_eqI [where k
        = "2"]) (simp_all add: round_half_even_def)
  have rd: "round_decimal 5 2 = 5"
    by (simp add: round_decimal_def round_half_even_def)
  have rf: "float_round 5 = 5"
    by (rule float_round_eqI [where k = "2"]) (simp_all add: round_half_even_def)
  have r: "py_round 5 2 = 5"
    unfolding py_round_def by (simp only: rd rf)
  have nz: "py_float (1 / 100) \<noteq> 0"
    by (simp add: py_float_cent)
  show ?thesis
    unfolding round_quantity_value_filters [OF nz]
    by (simp only:  py_float_cent t1 fm t2 t3 r)
qed

lemma round_quantity_value_4275:
  "round_quantity_value sy (symbol_filters (1 / 100) 2) 4275
     = 4275"
proof -
  have t1: "float_div 4275 (5764607523034235 / 576460752303423488) = 427500"
    unfolding float_div_def by (rule float_round_eqI [where k
        = "18"]) (simp_all add: round_half_even_def)
  have fm: "\<lfloor>427500 :: real\<rfloor> = 427500"
    by simp
  have t2: "float_of_int 427500 = 427500"
    unfolding float_of_int_def using float_round_of_int [of "427500"] by simp
  have t3: "float_mul 427500 (5764607523034235 / 576460752303423488) = 4275"
    unfolding float_mul_def by (rule float_round_eqI [where k
        = "12"]) (simp_all add: round_half_even_def)
  have rd: "round_decimal 4275 2 = 4275"
    by (simp add: round_decimal_def round_half_even_def)
  have rf: "float_round 4275 = 4275"
    by (rule float_round_eqI [where k = "12"]) (simp_all add: round_half_even_def)
  have r: "py_round 4275 2 = 4275"
    unfolding py_round_def by (simp only: rd rf)
  have nz: "py_float (1 / 100) \<noteq> 0"
    by (simp add: py_float_cent)
  show ?thesis
    unfolding round_quantity_value_filters [OF nz]
    by (simp only:  py_float_cent t1 fm t2 t3 r)
qed

lemma round_quantity_value_427523:
  "round_quantity_value sy (symbol_filters (1 / 100) 2) (py_float (427523 / 100))
     = py_float (427522 / 100)"
proof -
  have t1: "float_div (1175166274104197 / 274877906944) (5764607523034235 / 576460752303423488)
      = 7344789213151231 / 17179869184"
    unfolding float_div_def by (rule float_round_eqI [where k
        = "18"]) (simp_all add: round_half_even_def)
  have fm: "\<lfloor>7344789213151231 / 17179869184 :: real\<rfloor> = 427522"
    by simp
  have t2: "float_of_int 427522 = 427522"
    unfolding float_of_int_def using float_round_of_int [of "427522"] by simp
  have t3: "float_mul 427522 (5764607523034235 / 576460752303423488)
      = 4700654101300511 / 1099511627776"
    unfolding float_mul_def by (rule float_round_eqI [where k
        = "12"]) (simp_all add: round_half_even_def)
  have r: "py_round (4700654101300511 / 1099511627776) 2 = py_float (427522 / 100)"
    by (simp add: py_round_def py_float_def round_decimal_def round_half_even_def)
  have nz: "py_float (1 / 100) \<noteq> 0"
    by (simp add: py_float_cent)
  show ?thesis
    unfolding round_quantity_value_filters [OF nz]
    by (simp only: py_float_427523 py_float_cent t1 fm t2 t3 r)
qed



lemma calc_scenario_A:
  "calculate_order_quantity_value sy 1000 (95 / 100) 10
     (symbol_filters (1 / 100) 2) 100
     = Inr 95"
proof -
  have a1: "float_mul 1000 (95 / 100) = 950"
    unfolding float_mul_def by (rule float_round_eqI [where k
        = "9"]) (simp_all add: round_half_even_def)
  have a2: "float_mul 950 10 = 9500"
    unfolding float_mul_def by (rule float_round_eqI [where k
        = "13"]) (simp_all add: round_half_even_def)
  have a3: "float_div 9500 100 = 95"
    unfolding float_div_def by (rule float_round_eqI [where k
        = "6"]) (simp_all add: round_half_even_def)
  have t1: "float_div 95 (5764607523034235 / 576460752303423488) = 9500"
    unfolding float_div_def by (rule float_round_eqI [where k
        = "13"]) (simp_all add: round_half_even_def)
  have fm: "\<lfloor>9500 :: real\<rfloor> = 9500"
    by simp
  have t2: "float_of_int 9500 = 9500"
    unfolding float_of_int_def using float_round_of_int [of "9500"] by simp
  have t3: "float_mul 9500 (5764607523034235 / 576460752303423488) = 95"
    unfolding float_mul_def by (rule float_round_eqI [where k
        = "6"]) (simp_all add: round_half_even_def)
  have rd: "round_decimal 95 2 = 95"
    by (simp add: round_decimal_def round_half_even_def)
  have rf: "float_round 95 = 95"
    by (rule float_round_eqI [where k = "6"]) (simp_all add: round_half_even_def)
  have r: "py_round 95 2 = 95"
    unfolding py_round_def by (simp only: rd rf)
  have nz: "py_float (1 / 100) \<noteq> 0"
    by (simp add: py_float_cent)
  have nzp: "100 \<noteq> (0::real)"
    by simp
  show ?thesis
    unfolding calculate_order_quantity_value_Inr [OF nzp] round_quantity_value_filters [OF nz]
    by (simp only: a1 a2 a3 py_float_cent t1 fm t2 t3 r)
qed

lemma calc_scenario_A_float:
  "calculate_order_quantity_value sy 1000 (py_float (95 / 100)) 10
     (symbol_filters (1 / 100) 2) 100
     = Inr 95"
proof -
  have a1: "float_mul 1000 (4278419646001971 / 4503599627370496) = 950"
    unfolding float_mul_def by (rule float_round_eqI [where k
        = "9"]) (simp_all add: round_half_even_def)
  have a2: "float_mul 950 10 = 9500"
    unfolding float_mul_def by (rule float_round_eqI [where k
        = "13"]) (simp_all add: round_half_even_def)
  have a3: "float_div 9500 100 = 95"
    unfolding float_div_def by (rule float_round_eqI [where k
        = "6"]) (simp_all add: round_half_even_def)
  have t1: "float_div 95 (5764607523034235 / 576460752303423488) = 9500"
    unfolding float_div_def by (rule float_round_eqI [where k
        = "13"]) (simp_all add: round_half_even_def)
  have fm: "\<lfloor>9500 :: real\<rfloor> = 9500"
    by simp
  have t2: "float_of_int 9500 = 9500"
    unfolding float_of_int_def using float_round_of_int [of "9500"] by simp
  have t3: "float_mul 9500 (5764607523034235 / 576460752303423488) = 95"
    unfolding float_mul_def by (rule float_round_eqI [where k
        = "6"]) (simp_all add: round_half_even_def)
  have rd: "round_decimal 95 2 = 95"
    by (simp add: round_decimal_def round_half_even_def)
  have rf: "float_round 95 = 95"
    by (rule float_round_eqI [where k = "6"]) (simp_all add: round_half_even_def)
  have r: "py_round 95 2 = 95"
    unfolding py_round_def by (simp only: rd rf)
  have nz: "py_float (1 / 100) \<noteq> 0"
    by (simp add: py_float_cent)
  have nzp: "100 \<noteq> (0::real)"
    by simp
  show ?thesis
    unfolding calculate_order_quantity_value_Inr [OF nzp] round_quantity_value_filters [OF nz]
    by (simp only: py_float_95 a1 a2 a3 py_float_cent t1 fm t2 t3 r)
qed

lemma calc_negative_price:
  "calculate_order_quantity_value sy 1000 (95 / 100) 10
     (symbol_filters (1 / 100) 2) (- 100)
     = Inr (- 95)"
proof -
  have a1: "float_mul 1000 (95 / 100) = 950"
    unfolding float_mul_def by (rule float_round_eqI [where k
        = "9"]) (simp_all add: round_half_even_def)
  have a2: "float_mul 950 10 = 9500"
    unfolding float_mul_def by (rule float_round_eqI [where k
        = "13"]) (simp_all add: round_half_even_def)
  have a3: "float_div 9500 (- 100) = - 95"
    unfolding float_div_def by (rule float_round_eqI [where k
        = "6"]) (simp_all add: round_half_even_def)
  have t1: "float_div (- 95) (5764607523034235 / 576460752303423488) = - 9500"
    unfolding float_div_def by (rule float_round_eqI [where k
        = "13"]) (simp_all add: round_half_even_def)
  have fm: "\<lfloor>- 9500 :: real\<rfloor> = - 9500"
    by simp
  have t2: "float_of_int (- 9500) = - 9500"
    unfolding float_of_int_def using float_round_of_int [of "- 9500"] by simp
  have t3: "float_mul (- 9500) (5764607523034235 / 576460752303423488) = - 95"
    unfolding float_mul_def by (rule float_round_eqI [where k
        = "6"]) (simp_all add: round_half_even_def)
  have rd: "round_decimal (- 95) 2 = - 95"
    by (simp add: round_decimal_def round_half_even_def)
  have rf: "float_round (- 95) = - 95"
    by (rule float_round_eqI [where k = "6"]) (simp_all add: round_half_even_def)
  have r: "py_round (- 95) 2 = - 95"
    unfolding py_round_def by (simp only: rd rf)
  have nz: "py_float (1 / 100) \<noteq> 0"
    by (simp add: py_float_cent)
  have nzp: "(- 100) \<noteq> (0::real)"
    by simp
  show ?thesis
    unfolding calculate_order_quantity_value_Inr [OF nzp] round_quantity_value_filters [OF nz]
    by (simp only: a1 a2 a3 py_float_cent t1 fm t2 t3 r)
qed

lemma calc_negative_price_float:
  "calculate_order_quantity_value sy 1000 (py_float (95 / 100)) 10
     (symbol_filters (1 / 100) 2) (- 100)
     = Inr (- 95)"
proof -
  have a1: "float_mul 1000 (4278419646001971 / 4503599627370496) = 950"
    unfolding float_mul_def by (rule float_round_eqI [where k
        = "9"]) (simp_all add: round_half_even_def)
  have a2: "float_mul 950 10 = 9500"
    unfolding float_mul_def by (rule float_round_eqI [where k
        = "13"]) (simp_all add: round_half_even_def)
  have a3: "float_div 9500 (- 100) = - 95"
    unfolding float_div_def by (rule float_round_eqI [where k
        = "6"]) (simp_all add: round_half_even_def)
  have t1: "float_div (- 95) (5764607523034235 / 576460752303423488) = - 9500"
    unfolding float_div_def by (rule float_round_eqI [where k
        = "13"]) (simp_all add: round_half_even_def)
  have fm: "\<lfloor>- 9500 :: real\<rfloor> = - 9500"
    by simp
  have t2: "float_of_int (- 9500) = - 9500"
    unfolding float_of_int_def using float_round_of_int [of "- 9500"] by simp
  have t3: "float_mul (- 9500) (5764607523034235 / 576460752303423488) = - 95"
    unfolding float_mul_def by (rule float_round_eqI [where k
        = "6"]) (simp_all add: round_half_even_def)
  have rd: "round_decimal (- 95) 2 = - 95"
    by (simp add: round_decimal_def round_half_even_def)
  have rf: "float_round (- 95) = - 95"
    by (rule float_round_eqI [where k = "6"]) (simp_all add: round_half_even_def)
  have r: "py_round (- 95) 2 = - 95"
    unfolding py_round_def by (simp only: rd rf)
  have nz: "py_float (1 / 100) \<noteq> 0"
    by (simp add: py_float_cent)
  have nzp: "(- 100) \<noteq> (0::real)"
    by simp
  show ?thesis
    unfolding calculate_order_quantity_value_Inr [OF nzp] round_quantity_value_filters [OF nz]
    by (simp only: py_float_95 a1 a2 a3 py_float_cent t1 fm t2 t3 r)
qed

lemma calc_balance_6:
  "calculate_order_quantity_value sy 6 (py_float (95 / 100)) 10
     (symbol_filters (1 / 100) 2) 1
     = Inr (py_float (5699 / 100))"
proof -
  have a1: "float_mul 6 (4278419646001971 / 4503599627370496)
      = 1604407367250739 / 281474976710656"
    unfolding float_mul_def by (rule float_round_eqI [where k
        = "2"]) (simp_all add: round_half_even_def)
  have a2: "float_mul (1604407367250739 / 281474976710656) 10
      = 8022036836253695 / 140737488355328"
    unfolding float_mul_def by (rule float_round_eqI [where k
        = "5"]) (simp_all add: round_half_even_def)
  have a3: "float_div (8022036836253695 / 140737488355328) 1 = 8022036836253695 / 140737488355328"
    unfolding float_div_def by (rule float_round_eqI [where k
        = "5"]) (simp_all add: round_half_even_def)
  have t1: "float_div (8022036836253695 / 140737488355328) (5764607523034235 / 576460752303423488)
      = 6267216278323199 / 1099511627776"
    unfolding float_div_def by (rule float_round_eqI [where k
        = "12"]) (simp_all add: round_half_even_def)
  have fm: "\<lfloor>6267216278323199 / 1099511627776 :: real\<rfloor> = 5699"
    by simp
  have t2: "float_of_int 5699 = 5699"
    unfolding float_of_int_def using float_round_of_int [of "5699"] by simp
  have t3: "float_mul 5699 (5764607523034235 / 576460752303423488)
      = 8020629461370143 / 140737488355328"
    unfolding float_mul_def by (rule float_round_eqI [where k
        = "5"]) (simp_all add: round_half_even_def)
  have r: "py_round (8020629461370143 / 140737488355328) 2 = py_float (5699 / 100)"
    by (simp add: py_round_def py_float_def round_decimal_def round_half_even_def)
  have nz: "py_float (1 / 100) \<noteq> 0"
    by (simp add: py_float_cent)
  have nzp: "1 \<noteq> (0::real)"
    by simp
  show ?thesis
    unfolding calculate_order_quantity_value_Inr [OF nzp] round_quantity_value_filters [OF nz]
    by (simp only: py_float_95 a1 a2 a3 py_float_cent t1 fm t2 t3 r)
qed

lemma calc_negative_balance:
  "calculate_order_quantity_value sy (- 1) 1 1
     (symbol_filters (1 / 100) 2) 3
     = Inr (py_float (- 34 / 100))"
proof -
  have a1: "float_mul (- 1) 1 = - 1"
    unfolding float_mul_def by (rule float_round_eqI [where k
        = "0"]) (simp_all add: round_half_even_def)
  have a3: "float_div (- 1) 3 = - (6004799503160661 / 18014398509481984)"
    unfolding float_div_def by (rule float_round_eqI [where k
        = "- 2"]) (simp_all add: round_half_even_def)
  have t1: "float_div (- (6004799503160661 / 18014398509481984)) (5764607523034235 / 576460752303423488)
      = - (2345624805922133 / 70368744177664)"
    unfolding float_div_def by (rule float_round_eqI [where k
        = "5"]) (simp_all add: round_half_even_def)
  have fm: "\<lfloor>- (2345624805922133 / 70368744177664) :: real\<rfloor> = - 34"
    by simp
  have t2: "float_of_int (- 34) = - 34"
    unfolding float_of_int_def using float_round_of_int [of "- 34"] by simp
  have t3: "float_mul (- 34) (5764607523034235 / 576460752303423488)
      = - (6124895493223875 / 18014398509481984)"
    unfolding float_mul_def by (rule float_round_eqI [where k
        = "- 2"]) (simp_all add: round_half_even_def)
  have r: "py_round (- (6124895493223875 / 18014398509481984)) 2 = py_float (- 34 / 100)"
    by (simp add: py_round_def py_float_def round_decimal_def round_half_even_def)
  have nz: "py_float (1 / 100) \<noteq> 0"
    by (simp add: py_float_cent)
  have nzp: "3 \<noteq> (0::real)"
    by simp
  show ?thesis
    unfolding calculate_order_quantity_value_Inr [OF nzp] round_quantity_value_filters [OF nz]
    by (simp only: a1 a3 py_float_cent t1 fm t2 t3 r)
qed

lemma calc_balance_295:
  "calculate_order_quantity_value sy (py_float (295 / 1000)) 1 1
     (symbol_filters (1 / 100) 2) 1
     = Inr (py_float (29 / 100))"
proof -
  have a1: "float_mul (5314247560297185 / 18014398509481984) 1
      = 5314247560297185 / 18014398509481984"
    unfolding float_mul_def by (rule float_round_eqI [where k
        = "- 2"]) (simp_all add: round_half_even_def)
  have a3: "float_div (5314247560297185 / 18014398509481984) 1
      = 5314247560297185 / 18014398509481984"
    unfolding float_div_def by (rule float_round_eqI [where k
        = "- 2"]) (simp_all add: round_half_even_def)
  have t1: "float_div (5314247560297185 / 18014398509481984) (5764607523034235 / 576460752303423488)
      = 8303511812964351 / 281474976710656"
    unfolding float_div_def by (rule float_round_eqI [where k
        = "4"]) (simp_all add: round_half_even_def)
  have fm: "\<lfloor>8303511812964351 / 281474976710656 :: real\<rfloor> = 29"
    by simp
  have t2: "float_of_int 29 = 29"
    unfolding float_of_int_def using float_round_of_int [of "29"] by simp
  have t3: "float_mul 29 (5764607523034235 / 576460752303423488)
      = 5224175567749775 / 18014398509481984"
    unfolding float_mul_def by (rule float_round_eqI [where k
        = "- 2"]) (simp_all add: round_half_even_def)
  have r: "py_round (5224175567749775 / 18014398509481984) 2 = py_float (29 / 100)"
    by (simp add: py_round_def py_float_def round_decimal_def round_half_even_def)
  have nz: "py_float (1 / 100) \<noteq> 0"
    by (simp add: py_float_cent)
  have nzp: "1 \<noteq> (0::real)"
    by simp
  show ?thesis
    unfolding calculate_order_quantity_value_Inr [OF nzp] round_quantity_value_filters [OF nz]
    by (simp only: py_float_295 a1 a3 py_float_cent t1 fm t2 t3 r)
qed

lemma calc_negative_leverage_1:
  "calculate_order_quantity_value sy 1 1 (- 1)
     (symbol_filters (1 / 100) 2) 1
     = Inr (- 1)"
proof -
  have a1: "float_mul 1 1 = 1"
    unfolding float_mul_def by (rule float_round_eqI [where k
        = "0"]) (simp_all add: round_half_even_def)
  have a2: "float_mul 1 (- 1) = - 1"
    unfolding float_mul_def by (rule float_round_eqI [where k
        = "0"]) (simp_all add: round_half_even_def)
  have a3: "float_div (- 1) 1 = - 1"
    unfolding float_div_def by (rule float_round_eqI [where k
        = "0"]) (simp_all add: round_half_even_def)
  have t1: "float_div (- 1) (5764607523034235 / 576460752303423488) = - 100"
    unfolding float_div_def by (rule float_round_eqI [where k
        = "6"]) (simp_all add: round_half_even_def)
  have fm: "\<lfloor>- 100 :: real\<rfloor> = - 100"
    by simp
  have t2: "float_of_int (- 100) = - 100"
    unfolding float_of_int_def using float_round_of_int [of "- 100"] by simp
  have t3: "float_mul (- 100) (5764607523034235 / 576460752303423488) = - 1"
    unfolding float_mul_def by (rule float_round_eqI [where k
        = "0"]) (simp_all add: round_half_even_def)
  have rd: "round_decimal (- 1) 2 = - 1"
    by (simp add: round_decimal_def round_half_even_def)
  have rf: "float_round (- 1) = - 1"
    by (rule float_round_eqI [where k = "0"]) (simp_all add: round_half_even_def)
  have r: "py_round (- 1) 2 = - 1"
    unfolding py_round_def by (simp only: rd rf)
  have nz: "py_float (1 / 100) \<noteq> 0"
    by (simp add: py_float_cent)
  have nzp: "1 \<noteq> (0::real)"
    by simp
  show ?thesis
    unfolding calculate_order_quantity_value_Inr [OF nzp] round_quantity_value_filters [OF nz]
    by (simp only: a1 a2 a3 py_float_cent t1 fm t2 t3 r)
qed

lemma calc_negative_leverage_2:
  "calculate_order_quantity_value sy 2 1 (- 1)
     (symbol_filters (1 / 100) 2) 1
     = Inr (- 2)"
proof -
  have a1: "float_mul 2 1 = 2"
    unfolding float_mul_def by (rule float_round_eqI [where k
        = "1"]) (simp_all add: round_half_even_def)
  have a2: "float_mul 2 (- 1) = - 2"
    unfolding float_mul_def by (rule float_round_eqI [where k
        = "1"]) (simp_all add: round_half_even_def)
  have a3: "float_div (- 2) 1 = - 2"
    unfolding float_div_def by (rule float_round_eqI [where k
        = "1"]) (simp_all add: round_half_even_def)
  have t1: "float_div (- 2) (5764607523034235 / 576460752303423488) = - 200"
    unfolding float_div_def by (rule float_round_eqI [where k
        = "7"]) (simp_all add: round_half_even_def)
  have fm: "\<lfloor>- 200 :: real\<rfloor> = - 200"
    by simp
  have t2: "float_of_int (- 200) = - 200"
    unfolding float_of_int_def using float_round_of_int [of "- 200"] by simp
  have t3: "float_mul (- 200) (5764607523034235 / 576460752303423488) = - 2"
    unfolding float_mul_def by (rule float_round_eqI [where k
        = "1"]) (simp_all add: round_half_even_def)
  have rd: "round_decimal (- 2) 2 = - 2"
    by (simp add: round_decimal_def round_half_even_def)
  have rf: "float_round (- 2) = - 2"
    by (rule float_round_eqI [where k = "1"]) (simp_all add: round_half_even_def)
  have r: "py_round (- 2) 2 = - 2"
    unfolding py_round_def by (simp only: rd rf)
  have nz: "py_float (1 / 100) \<noteq> 0"
    by (simp add: py_float_cent)
  have nzp: "1 \<noteq> (0::real)"
    by simp
  show ?thesis
    unfolding calculate_order_quantity_value_Inr [OF nzp] round_quantity_value_filters [OF nz]
    by (simp only: a1 a2 a3 py_float_cent t1 fm t2 t3 r)
qed

lemma calc_entry_1000:
  "calculate_order_quantity_value sy 1000 (py_float (95 / 100)) 10
     (symbol_filters (1 / 100) 2) 2
     = Inr 4750"
proof -
  have a1: "float_mul 1000 (4278419646001971 / 4503599627370496) = 950"
    unfolding float_mul_def by (rule float_round_eqI [where k
        = "9"]) (simp_all add: round_half_even_def)
  have a2: "float_mul 950 10 = 9500"
    unfolding float_mul_def by (rule float_round_eqI [where k
        = "13"]) (simp_all add: round_half_even_def)
  have a3: "float_div 9500 2 = 4750"
    unfolding float_div_def by (rule float_round_eqI [where k
        = "12"]) (simp_all add: round_half_even_def)
  have t1: "float_div 4750 (5764607523034235 / 576460752303423488) = 475000"
    unfolding float_div_def by (rule float_round_eqI [where k
        = "18"]) (simp_all add: round_half_even_def)
  have fm: "\<lfloor>475000 :: real\<rfloor> = 475000"
    by simp
  have t2: "float_of_int 475000 = 475000"
    unfolding float_of_int_def using float_round_of_int [of "475000"] by simp
  have t3: "float_mul 475000 (5764607523034235 / 576460752303423488) = 4750"
    unfolding float_mul_def by (rule float_round_eqI [where k
        = "12"]) (simp_all add: round_half_even_def)
  have rd: "round_decimal 4750 2 = 4750"
    by (simp add: round_decimal_def round_half_even_def)
  have rf: "float_round 4750 = 4750"
    by (rule float_round_eqI [where k = "12"]) (simp_all add: round_half_even_def)
  have r: "py_round 4750 2 = 4750"
    unfolding py_round_def by (simp only: rd rf)
  have nz: "py_float (1 / 100) \<noteq> 0"
    by (simp add: py_float_cent)
  have nzp: "2 \<noteq> (0::real)"
    by simp
  show ?thesis
    unfolding calculate_order_quantity_value_Inr [OF nzp] round_quantity_value_filters [OF nz]
    by (simp only: py_float_95 a1 a2 a3 py_float_cent t1 fm t2 t3 r)
qed

lemma calc_entry_900:
  "calculate_order_quantity_value sy 900 (py_float (95 / 100)) 10
     (symbol_filters (1 / 100) 2) 2
     = Inr 4275"
proof -
  have a1: "float_mul 900 (4278419646001971 / 4503599627370496) = 855"
    unfolding float_mul_def by (rule float_round_eqI [where k
        = "9"]) (simp_all add: round_half_even_def)
  have a2: "float_mul 855 10 = 8550"
    unfolding float_mul_def by (rule float_round_eqI [where k
        = "13"]) (simp_all add: round_half_even_def)
  have a3: "float_div 8550 2 = 4275"
    unfolding float_div_def by (rule float_round_eqI [where k
        = "12"]) (simp_all add: round_half_even_def)
  have t1: "float_div 4275 (5764607523034235 / 576460752303423488) = 427500"
    unfolding float_div_def by (rule float_round_eqI [where k
        = "18"]) (simp_all add: round_half_even_def)
  have fm: "\<lfloor>427500 :: real\<rfloor> = 427500"
    by simp
  have t2: "float_of_int 427500 = 427500"
    unfolding float_of_int_def using float_round_of_int [of "427500"] by simp
  have t3: "float_mul 427500 (5764607523034235 / 576460752303423488) = 4275"
    unfolding float_mul_def by (rule float_round_eqI [where k
        = "12"]) (simp_all add: round_half_even_def)
  have rd: "round_decimal 4275 2 = 4275"
    by (simp add: round_decimal_def round_half_even_def)
  have rf: "float_round 4275 = 4275"
    by (rule float_round_eqI [where k = "12"]) (simp_all add: round_half_even_def)
  have r: "py_round 4275 2 = 4275"
    unfolding py_round_def by (simp only: rd rf)
  have nz: "py_float (1 / 100) \<noteq> 0"
    by (simp add: py_float_cent)
  have nzp: "2 \<noteq> (0::real)"
    by simp
  show ?thesis
    unfolding calculate_order_quantity_value_Inr [OF nzp] round_quantity_value_filters [OF nz]
    by (simp only: py_float_95 a1 a2 a3 py_float_cent t1 fm t2 t3 r)
qed

lemma calc_entry_90005:
  "calculate_order_quantity_value sy (py_float (90005 / 100)) (py_float (95 / 100)) 10
     (symbol_filters (1 / 100) 2) 2
     = Inr (py_float (427523 / 100))"
proof -
  have a1: "float_mul (3958461762319155 / 4398046511104) (4278419646001971 / 4503599627370496)
      = 3760538674203197 / 4398046511104"
    unfolding float_mul_def by (rule float_round_eqI [where k
        = "9"]) (simp_all add: round_half_even_def)
  have a2: "float_mul (3760538674203197 / 4398046511104) 10 = 1175168335688499 / 137438953472"
    unfolding float_mul_def by (rule float_round_eqI [where k
        = "13"]) (simp_all add: round_half_even_def)
  have a3: "float_div (1175168335688499 / 137438953472) 2 = 1175168335688499 / 274877906944"
    unfolding float_div_def by (rule float_round_eqI [where k
        = "12"]) (simp_all add: round_half_even_def)
  have t1: "float_div (1175168335688499 / 274877906944) (5764607523034235 / 576460752303423488)
      = 7344802098053119 / 17179869184"
    unfolding float_div_def by (rule float_round_eqI [where k
        = "18"]) (simp_all add: round_half_even_def)
  have fm: "\<lfloor>7344802098053119 / 17179869184 :: real\<rfloor> = 427523"
    by simp
  have t2: "float_of_int 427523 = 427523"
    unfolding float_of_int_def using float_round_of_int [of "427523"] by simp
  have t3: "float_mul 427523 (5764607523034235 / 576460752303423488)
      = 4700665096416789 / 1099511627776"
    unfolding float_mul_def by (rule float_round_eqI [where k
        = "12"]) (simp_all add: round_half_even_def)
  have r: "py_round (4700665096416789 / 1099511627776) 2 = py_float (427523 / 100)"
    by (simp add: py_round_def py_float_def round_decimal_def round_half_even_def)
  have nz: "py_float (1 / 100) \<noteq> 0"
    by (simp add: py_float_cent)
  have nzp: "2 \<noteq> (0::real)"
    by simp
  show ?thesis
    unfolding calculate_order_quantity_value_Inr [OF nzp] round_quantity_value_filters [OF nz]
    by (simp only: py_float_95 py_float_90005 a1 a2 a3 py_float_cent t1 fm t2 t3 r)
qed

lemma calc_balance_2000:
  "calculate_order_quantity_value sy 2000 (py_float (95 / 100)) 10
     (symbol_filters (1 / 100) 2) 100
     = Inr 190"
proof -
  have a1: "float_mul 2000 (4278419646001971 / 4503599627370496) = 1900"
    unfolding float_mul_def by (rule float_round_eqI [where k
        = "10"]) (simp_all add: round_half_even_def)
  have a2: "float_mul 1900 10 = 19000"
    unfolding float_mul_def by (rule float_round_eqI [where k
        = "14"]) (simp_all add: round_half_even_def)
  have a3: "float_div 19000 100 = 190"
    unfolding float_div_def by (rule float_round_eqI [where k
        = "7"]) (simp_all add: round_half_even_def)
  have t1: "float_div 190 (5764607523034235 / 576460752303423488) = 19000"
    unfolding float_div_def by (rule float_round_eqI [where k
        = "14"]) (simp_all add: round_half_even_def)
  have fm: "\<lfloor>19000 :: real\<rfloor> = 19000"
    by simp
  have t2: "float_of_int 19000 = 19000"
    unfolding float_of_int_def using float_round_of_int [of "19000"] by simp
  have t3: "float_mul 19000 (5764607523034235 / 576460752303423488) = 190"
    unfolding float_mul_def by (rule float_round_eqI [where k
        = "7"]) (simp_all add: round_half_even_def)
  have rd: "round_decimal 190 2 = 190"
    by (simp add: round_decimal_def round_half_even_def)
  have rf: "float_round 190 = 190"
    by (rule float_round_eqI [where k = "7"]) (simp_all add: round_half_even_def)
  have r: "py_round 190 2 = 190"
    unfolding py_round_def by (simp only: rd rf)
  have nz: "py_float (1 / 100) \<noteq> 0"
    by (simp add: py_float_cent)
  have nzp: "100 \<noteq> (0::real)"
    by simp
  show ?thesis
    unfolding calculate_order_quantity_value_Inr [OF nzp] round_quantity_value_filters [OF nz]
    by (simp only: py_float_95 a1 a2 a3 py_float_cent t1 fm t2 t3 r)
qed

lemma calc_leverage_20:
  "calculate_order_quantity_value sy 1000 (py_float (95 / 100)) 20
     (symbol_filters (1 / 100) 2) 100
     = Inr 190"
proof -
  have a1: "float_mul 1000 (4278419646001971 / 4503599627370496) = 950"
    unfolding float_mul_def by (rule float_round_eqI [where k
        = "9"]) (simp_all add: round_half_even_def)
  have a2: "float_mul 950 20 = 19000"
    unfolding float_mul_def by (rule float_round_eqI [where k
        = "14"]) (simp_all add: round_half_even_def)
  have a3: "float_div 19000 100 = 190"
    unfolding float_div_def by (rule float_round_eqI [where k
        = "7"]) (simp_all add: round_half_even_def)
  have t1: "float_div 190 (5764607523034235 / 576460752303423488) = 19000"
    unfolding float_div_def by (rule float_round_eqI [where k
        = "14"]) (simp_all add: round_half_even_def)
  have fm: "\<lfloor>19000 :: real\<rfloor> = 19000"
    by simp
  have t2: "float_of_int 19000 = 19000"
    unfolding float_of_int_def using float_round_of_int [of "19000"] by simp
  have t3: "float_mul 19000 (5764607523034235 / 576460752303423488) = 190"
    unfolding float_mul_def by (rule float_round_eqI [where k
        = "7"]) (simp_all add: round_half_even_def)
  have rd: "round_decimal 190 2 = 190"
    by (simp add: round_decimal_def round_half_even_def)
  have rf: "float_round 190 = 190"
    by (rule float_round_eqI [where k = "7"]) (simp_all add: round_half_even_def)
  have r: "py_round 190 2 = 190"
    unfolding py_round_def by (simp only: rd rf)
  have nz: "py_float (1 / 100) \<noteq> 0"
    by (simp add: py_float_cent)
  have nzp: "100 \<noteq> (0::real)"
    by simp
  show ?thesis
    unfolding calculate_order_quantity_value_Inr [OF nzp] round_quantity_value_filters [OF nz]
    by (simp only: py_float_95 a1 a2 a3 py_float_cent t1 fm t2 t3 r)
qed

lemma calc_price_200:
  "calculate_order_quantity_value sy 1000 (py_float (95 / 100)) 10
     (symbol_filters (1 / 100) 2) 200
     = Inr (95 / 2)"
proof -
  have a1: "float_mul 1000 (4278419646001971 / 4503599627370496) = 950"
    unfolding float_mul_def by (rule float_round_eqI [where k
        = "9"]) (simp_all add: round_half_even_def)
  have a2: "float_mul 950 10 = 9500"
    unfolding float_mul_def by (rule float_round_eqI [where k
        = "13"]) (simp_all add: round_half_even_def)
  have a3: "float_div 9500 200 = 95 / 2"
    unfolding float_div_def by (rule float_round_eqI [where k
        = "5"]) (simp_all add: round_half_even_def)
  have t1: "float_div (95 / 2) (5764607523034235 / 576460752303423488) = 4750"
    unfolding float_div_def by (rule float_round_eqI [where k
        = "12"]) (simp_all add: round_half_even_def)
  have fm: "\<lfloor>4750 :: real\<rfloor> = 4750"
    by simp
  have t2: "float_of_int 4750 = 4750"
    unfolding float_of_int_def using float_round_of_int [of "4750"] by simp
  have t3: "float_mul 4750 (5764607523034235 / 576460752303423488) = 95 / 2"
    unfolding float_mul_def by (rule float_round_eqI [where k
        = "5"]) (simp_all add: round_half_even_def)
  have rd: "round_decimal (95 / 2) 2 = 95 / 2"
    by (simp add: round_decimal_def round_half_even_def)
  have rf: "float_round (95 / 2) = 95 / 2"
    by (rule float_round_eqI [where k = "5"]) (simp_all add: round_half_even_def)
  have r: "py_round (95 / 2) 2 = 95 / 2"
    unfolding py_round_def by (simp only: rd rf)
  have nz: "py_float (1 / 100) \<noteq> 0"
    by (simp add: py_float_cent)
  have nzp: "200 \<noteq> (0::real)"
    by simp
  show ?thesis
    unfolding calculate_order_quantity_value_Inr [OF nzp] round_quantity_value_filters [OF nz]
    by (simp only: py_float_95 a1 a2 a3 py_float_cent t1 fm t2 t3 r)
qed

lemma calc_price_3:
  "calculate_order_quantity_value sy 1000 (py_float (95 / 100)) 10
     (symbol_filters (1 / 100) 2) 3
     = Inr (py_float (316666 / 100))"
proof -
  have a1: "float_mul 1000 (4278419646001971 / 4503599627370496) = 950"
    unfolding float_mul_def by (rule float_round_eqI [where k
        = "9"]) (simp_all add: round_half_even_def)
  have a2: "float_mul 950 10 = 9500"
    unfolding float_mul_def by (rule float_round_eqI [where k
        = "13"]) (simp_all add: round_half_even_def)
  have a3: "float_div 9500 3 = 6963573642581333 / 2199023255552"
    unfolding float_div_def by (rule float_round_eqI [where k
        = "11"]) (simp_all add: round_half_even_def)
  have t1: "float_div (6963573642581333 / 2199023255552) (5764607523034235 / 576460752303423488)
      = 2720145954133333 / 8589934592"
    unfolding float_div_def by (rule float_round_eqI [where k
        = "18"]) (simp_all add: round_half_even_def)
  have fm: "\<lfloor>2720145954133333 / 8589934592 :: real\<rfloor> = 316666"
    by simp
  have t2: "float_of_int 316666 = 316666"
    unfolding float_of_int_def using float_round_of_int [of "316666"] by simp
  have t3: "float_mul 316666 (5764607523034235 / 576460752303423488)
      = 870444872803287 / 274877906944"
    unfolding float_mul_def by (rule float_round_eqI [where k
        = "11"]) (simp_all add: round_half_even_def)
  have r: "py_round (870444872803287 / 274877906944) 2 = py_float (316666 / 100)"
    by (simp add: py_round_def py_float_def round_decimal_def round_half_even_def)
  have nz: "py_float (1 / 100) \<noteq> 0"
    by (simp add: py_float_cent)
  have nzp: "3 \<noteq> (0::real)"
    by simp
  show ?thesis
    unfolding calculate_order_quantity_value_Inr [OF nzp] round_quantity_value_filters [OF nz]
    by (simp only: py_float_95 a1 a2 a3 py_float_cent t1 fm t2 t3 r)
qed

lemma step_multiple_balance_6:
  "float_mul
     (float_of_int
        \<lfloor>float_div (float_div (float_mul (float_mul 6 (py_float (95 / 100))) 10) 1)
           (py_float (1 / 100))\<rfloor>)
     (py_float (1 / 100))
   = 8020629461370143 / 140737488355328"
proof -
  have a1: "float_mul 6 (4278419646001971 / 4503599627370496)
      = 1604407367250739 / 281474976710656"
    unfolding float_mul_def by (rule float_round_eqI [where k
        = "2"]) (simp_all add: round_half_even_def)
  have a2: "float_mul (1604407367250739 / 281474976710656) 10
      = 8022036836253695 / 140737488355328"
    unfolding float_mul_def by (rule float_round_eqI [where k
        = "5"]) (simp_all add: round_half_even_def)
  have a3: "float_div (8022036836253695 / 140737488355328) 1 = 8022036836253695 / 140737488355328"
    unfolding float_div_def by (rule float_round_eqI [where k
        = "5"]) (simp_all add: round_half_even_def)
  have t1: "float_div (8022036836253695 / 140737488355328) (5764607523034235 / 576460752303423488)
      = 6267216278323199 / 1099511627776"
    unfolding float_div_def by (rule float_round_eqI [where k
        = "12"]) (simp_all add: round_half_even_def)
  have fm: "\<lfloor>6267216278323199 / 1099511627776 :: real\<rfloor> = 5699"
    by simp
  have t2: "float_of_int 5699 = 5699"
    unfolding float_of_int_def using float_round_of_int [of "5699"] by simp
  have t3: "float_mul 5699 (5764607523034235 / 576460752303423488)
      = 8020629461370143 / 140737488355328"
    unfolding float_mul_def by (rule float_round_eqI [where k
        = "5"]) (simp_all add: round_half_even_def)
  show ?thesis
    by (simp only: py_float_95 py_float_cent a1 a2 a3 t1 fm t2 t3)
qed

lemma round_trip_29:
  "float_mul (float_of_int \<lfloor>float_div (py_float (29 / 100)) (py_float (1 / 100))\<rfloor>)
     (py_float (1 / 100)) = 1261007895663739 / 4503599627370496"
proof -
  have t1: "float_div (5224175567749775 / 18014398509481984) (5764607523034235 / 576460752303423488)
      = 8162774324609023 / 281474976710656"
    unfolding float_div_def by (rule float_round_eqI [where k
        = "4"]) (simp_all add: round_half_even_def)
  have fm: "\<lfloor>8162774324609023 / 281474976710656 :: real\<rfloor> = 28"
    by simp
  have t2: "float_of_int 28 = 28"
    unfolding float_of_int_def using float_round_of_int [of "28"] by simp
  have t3: "float_mul 28 (5764607523034235 / 576460752303423488)
      = 1261007895663739 / 4503599627370496"
    unfolding float_mul_def by (rule float_round_eqI [where k
        = "- 2"]) (simp_all add: round_half_even_def)
  show ?thesis
    by (simp only: py_float_29 py_float_cent t1 fm t2 t3)
qed

section \<open>Properties of the methods\<close>

subsection \<open>Traces\<close>

lemma create_requests_append [simp]:
  "create_requests (xs @ ys) = create_requests xs @ create_requests ys"
  by (induction xs rule: create_requests.induct) simp_all

lemma cancel_requests_append [simp]:
  "cancel_requests (xs @ ys) = cancel_requests xs @ cancel_requests ys"
  by (induction xs rule: cancel_requests.induct) simp_all

lemma create_requests_map_create [simp]:
  "create_requests (map Futures_create_order rs) = rs"
  by (induction rs) simp_all


subsection \<open>Sizing: the methods return the values of the pure functions\<close>

lemma round_quantity_eq:
  "round_quantity cfg q w =
     (round_quantity_value (symbol cfg) (next_response (symbol_info_responses w)) q,
      w\<lparr>symbol_info_responses := tl (symbol_info_responses w),
        calls := calls w @ [Get_symbol_info (symbol cfg)],
        log := log w @ [round_quantity_event (symbol cfg)
                          (next_response (symbol_info_responses w)) q]\<rparr>)"
  by (simp add: round_quantity_def get_symbol_info_def round_quantity_value_def
      round_quantity_event_def log_event_def split: sum.splits prod.splits)

lemma round_quantity_event_filters:
  "py_float s \<noteq> 0 \<Longrightarrow>
   round_quantity_event sy (symbol_filters s n) q
     = Round_quantity q (py_float s) (Some n) (round_quantity_value sy (symbol_filters s n) q)"
  by (simp add: round_quantity_event_def round_quantity_value_def round_quantity_try_def
      symbol_filters_def Let_def)

lemma get_available_balance_eq:
  "get_available_balance w =
     (available_balance_value (next_response (balance_responses w)),
      w\<lparr>balance_responses := tl (balance_responses w),
        calls := calls w @ [Futures_account_balance],
        log := log w @ available_balance_events (next_response (balance_responses w))\<rparr>)"
  by (simp add: get_available_balance_def futures_account_balance_def
      available_balance_value_def available_balance_events_def log_event_def
      split: sum.splits option.splits)

lemma calculate_order_quantity_eq:
  "entry_price \<noteq> 0 \<Longrightarrow>
   calculate_order_quantity cfg entry_price w =
     (calculate_order_quantity_value (symbol cfg)
        (available_balance_value (next_response (balance_responses w)))
        (base_capital_pct cfg) (leverage cfg)
        (next_response (symbol_info_responses w)) entry_price,
      w\<lparr>balance_responses := tl (balance_responses w),
        symbol_info_responses := tl (symbol_info_responses w),
        calls := calls w @ [Futures_account_balance, Get_symbol_info (symbol cfg)],
        log := log w @ available_balance_events (next_response (balance_responses w))
               @ [round_quantity_event (symbol cfg) (next_response (symbol_info_responses w))
                    (float_div
                       (float_mul
                          (float_mul
                             (available_balance_value (next_response (balance_responses w)))
                             (base_capital_pct cfg))
                          (leverage cfg))
                       entry_price)]\<rparr>)"
  by (simp add: calculate_order_quantity_def get_available_balance_eq round_quantity_eq
      calculate_order_quantity_value_def Let_def)

lemma calculate_order_quantity_zero:
  "calculate_order_quantity cfg 0 w =
     (Inl ZeroDivisionError,
      w\<lparr>balance_responses := tl (balance_responses w),
        calls := calls w @ [Futures_account_balance],
        log := log w @ available_balance_events (next_response (balance_responses w))\<rparr>)"
  by (simp add: calculate_order_quantity_def get_available_balance_eq)


subsection \<open>Orders\<close>

lemma place_order_eq:
  assumes "entry_price \<noteq> 0"
  shows "fst (place_order cfg sg entry_price w) =
           (case next_response (create_order_responses w) of
              Inr ord \<Rightarrow> Inr (Some ord)
            | Inl e \<Rightarrow> if is_api_exception e then Inr None else Inl e)"
    and "calls (snd (place_order cfg sg entry_price w)) =
           calls w @ [Futures_account_balance, Get_symbol_info (symbol cfg),
             Futures_create_order (market_order_request cfg sg
               (round_quantity_value (symbol cfg) (next_response (symbol_info_responses w))
                 (float_div
                    (float_mul
                       (float_mul
                          (available_balance_value (next_response (balance_responses w)))
                          (base_capital_pct cfg))
                       (leverage cfg))
                    entry_price)))]"
    and "balance_responses (snd (place_order cfg sg entry_price w)) = tl (balance_responses w)"
    and "symbol_info_responses (snd (place_order cfg sg entry_price w))
           = tl (symbol_info_responses w)"
    and "create_order_responses (snd (place_order cfg sg entry_price w))
           = tl (create_order_responses w)"
    and "open_orders_responses (snd (place_order cfg sg entry_price w))
           = open_orders_responses w"
  using assms
  by (simp_all add: place_order_def calculate_order_quantity_eq futures_create_order_def
      log_event_def calculate_order_quantity_value_def Let_def split: sum.splits)


lemma trailing_stop_submissions_eq:
  "trailing_stop_submissions cfg sg q rs =
     (if (\<exists>m. next_response rs = Inl (BinanceAPIException m))
      then [trailing_stop_request cfg sg q 1, trailing_stop_request cfg sg q (1 / 2)]
      else [trailing_stop_request cfg sg q 1])"
proof (cases "next_response rs")
  case (Inl e)
  then show ?thesis by (cases e) (simp_all add: trailing_stop_submissions_def)
next
  case (Inr ord)
  then show ?thesis by (simp add: trailing_stop_submissions_def)
qed

lemma place_trailing_stop_calls:
  "calls (snd (place_trailing_stop cfg sg q0 w)) =
     calls w @ Get_symbol_info (symbol cfg)
       # map Futures_create_order
           (trailing_stop_submissions cfg sg
              (round_quantity_value (symbol cfg) (next_response (symbol_info_responses w)) q0)
              (create_order_responses w))"
  by (simp add: place_trailing_stop_def round_quantity_eq futures_create_order_def
      log_event_def trailing_stop_submissions_def Let_def split: sum.splits)


lemma place_trailing_stop_returns:
  "(\<exists>placed. fst (place_trailing_stop cfg sg q0 w) = Inr placed)
     \<longleftrightarrow> placement_returns (create_order_responses w)"
  by (simp add: place_trailing_stop_def round_quantity_eq futures_create_order_def
      log_event_def placement_returns_def Let_def split: sum.splits)

lemma place_trailing_stop_escapes:
  assumes "\<not> placement_returns (create_order_responses w)"
  shows "\<exists>e. fst (place_trailing_stop cfg sg q0 w) = Inl e \<and> \<not> is_api_exception e"
  using assms
  by (auto simp: place_trailing_stop_def round_quantity_eq futures_create_order_def
      log_event_def placement_returns_def Let_def split: sum.splits)

lemma place_trailing_stop_log:
  "\<exists>evs. log (snd (place_trailing_stop cfg sg q0 w)) = log w @ evs
         \<and> Trailing_stop_action_success \<notin> set evs"
  by (auto simp: place_trailing_stop_def round_quantity_eq futures_create_order_def
      log_event_def round_quantity_event_def round_quantity_try_def Let_def
      split: sum.splits option.splits)


subsection \<open>Conflicting stop orders\<close>

lemma scan_stop_orders_eq:
  "scan_stop_orders os (a, b) =
     (case filter (\<lambda>ord. order_type ord = ''STOP_MARKET'') os of
        [] \<Rightarrow> a | x # xs \<Rightarrow> Some (last (x # xs)),
      case filter (\<lambda>ord. order_type ord = ''TRAILING_STOP_MARKET'') os of
        [] \<Rightarrow> b | x # xs \<Rightarrow> Some (last (x # xs)))"
proof (induction os arbitrary: a b)
  case Nil
  show ?case by simp
next
  case (Cons ord rest)
  show ?case by (simp add: Cons.IH split: list.splits)
qed

lemma scan_stop_orders_None:
  "scan_stop_orders os (None, None) =
     (if list_ex (\<lambda>ord. order_type ord = ''STOP_MARKET'') os
      then Some (last (filter (\<lambda>ord. order_type ord = ''STOP_MARKET'') os)) else None,
      if list_ex (\<lambda>ord. order_type ord = ''TRAILING_STOP_MARKET'') os
      then Some (last (filter (\<lambda>ord. order_type ord = ''TRAILING_STOP_MARKET'') os))
      else None)"
  by (auto simp: scan_stop_orders_eq list_ex_iff filter_empty_conv split: list.splits)

lemma manage_stop_orders_no_conflict:
  assumes "open_orders_responses w = Inr os # rest"
    and "\<not> (list_ex (\<lambda>ord. order_type ord = ''STOP_MARKET'') os
            \<and> list_ex (\<lambda>ord. order_type ord = ''TRAILING_STOP_MARKET'') os)"
  shows "manage_stop_orders cfg sg w =
           (Inr (), w\<lparr>open_orders_responses := rest,
                      calls := calls w @ [Futures_get_open_orders (symbol cfg)]\<rparr>)"
  using assms
  by (auto simp: manage_stop_orders_def futures_get_open_orders_def next_response_def
      scan_stop_orders_None)

lemma manage_stop_orders_conflict:
  assumes "open_orders_responses w = Inr os # rest"
    and "list_ex (\<lambda>ord. order_type ord = ''STOP_MARKET'') os"
    and "list_ex (\<lambda>ord. order_type ord = ''TRAILING_STOP_MARKET'') os"
  shows "calls (snd (manage_stop_orders cfg sg w)) =
           calls w @ [Futures_get_open_orders (symbol cfg),
                      Futures_cancel_order (symbol cfg)
                        (orderId (last (filter (\<lambda>ord. order_type ord = ''STOP_MARKET'') os)))]"
    and "open_orders_responses (snd (manage_stop_orders cfg sg w)) = rest"
  using assms
  by (auto simp: manage_stop_orders_def futures_get_open_orders_def next_response_def
      scan_stop_orders_None futures_cancel_order_def log_event_def
      split: sum.splits prod.splits)

lemma manage_stop_orders_calls:
  "\<exists>post. calls (snd (manage_stop_orders cfg sg w))
            = calls w @ Futures_get_open_orders (symbol cfg) # post
          \<and> create_requests post = []"
  by (auto simp: manage_stop_orders_def futures_get_open_orders_def futures_cancel_order_def
      log_event_def split: sum.splits option.splits prod.splits)

lemma no_stop_after_cancel:
  assumes "length (filter (\<lambda>ord. order_type ord = ''STOP_MARKET'') os) \<le> 1"
    and "list_ex (\<lambda>ord. order_type ord = ''STOP_MARKET'') os"
  shows "\<not> list_ex (\<lambda>ord. order_type ord = ''STOP_MARKET'')
           (orders_after_cancel
              (orderId (last (filter (\<lambda>ord. order_type ord = ''STOP_MARKET'') os))) os)"
proof -
  obtain x where x: "filter (\<lambda>ord. order_type ord = ''STOP_MARKET'') os = [x]"
    using assms
    by (cases "filter (\<lambda>ord. order_type ord = ''STOP_MARKET'') os")
       (auto simp: list_ex_iff filter_empty_conv)
  have "filter (\<lambda>ord. order_type ord = ''STOP_MARKET'')
          (orders_after_cancel (orderId x) os)
        = filter (\<lambda>ord. orderId ord \<noteq> orderId x)
            (filter (\<lambda>ord. order_type ord = ''STOP_MARKET'') os)"
    by (simp add: orders_after_cancel_def conj_commute)
  also have "\<dots> = []" by (simp add: x)
  finally show ?thesis by (simp add: x list_ex_iff filter_empty_conv)
qed

lemma trailing_after_cancel:
  assumes "distinct (map orderId os)"
    and "list_ex (\<lambda>ord. order_type ord = ''STOP_MARKET'') os"
  shows "filter (\<lambda>ord. order_type ord = ''TRAILING_STOP_MARKET'')
           (orders_after_cancel
              (orderId (last (filter (\<lambda>ord. order_type ord = ''STOP_MARKET'') os))) os)
         = filter (\<lambda>ord. order_type ord = ''TRAILING_STOP_MARKET'') os"
proof -
  define t where "t = last (filter (\<lambda>ord. order_type ord = ''STOP_MARKET'') os)"
  have ne: "filter (\<lambda>ord. order_type ord = ''STOP_MARKET'') os \<noteq> []"
    using assms(2) by (simp add: list_ex_iff filter_empty_conv)
  then have "t \<in> set (filter (\<lambda>ord. order_type ord = ''STOP_MARKET'') os)"
    unfolding t_def by (rule last_in_set)
  then have t: "t \<in> set os" "order_type t = ''STOP_MARKET''" by auto
  have "\<And>ord. ord \<in> set os \<Longrightarrow> order_type ord = ''TRAILING_STOP_MARKET'' \<Longrightarrow>
          orderId ord \<noteq> orderId t"
  proof
    fix ord assume o: "ord \<in> set os" "order_type ord = ''TRAILING_STOP_MARKET''"
      and eq: "orderId ord = orderId t"
    from assms(1) o(1) t(1) eq have "ord = t" by (meson distinct_map inj_onD)
    with o(2) t(2) show False by simp
  qed
  then show ?thesis
    unfolding orders_after_cancel_def t_def [symmetric]
    by (auto intro!: filter_cong)
qed

subsection \<open>One iteration of the loop\<close>

lemma reconnect_calls:
  "\<exists>post. calls (reconnect cfg w) = calls w @ post \<and> create_requests post = []
          \<and> Futures_get_open_orders sy \<notin> set post"
  by (auto simp: reconnect_def client_init_def Let_def log_event_def
      set_leverage_def futures_change_leverage_def split: sum.splits prod.splits)



lemma run_iteration_calls:
  "\<exists>post. calls (run_iteration cfg w) = calls (snd (run_try cfg w)) @ post
          \<and> create_requests post = [] \<and> Futures_get_open_orders sy \<notin> set post"
proof (cases "fst (run_try cfg w)")
  case (Inl e)
  then show ?thesis
    using reconnect_calls [of cfg "log_event (Error_in_main_loop e) (snd (run_try cfg w))" sy]
    by (auto simp: run_iteration_def log_event_def split: prod.splits)
next
  case (Inr u)
  then show ?thesis by (auto simp: run_iteration_def split: prod.splits)
qed

lemma determine_signal_Some_nonempty: "determine_signal df = Some sg \<Longrightarrow> df \<noteq> []"
  by (auto simp: determine_signal_def)



lemma run_try_flat_signal:
  assumes "klines_responses w = Inr klines # krest"
    and "calculate_ema cfg klines = Inr df"
    and "position_responses w = Inr positions # prest"
    and "filter (\<lambda>pos. position_symbol pos = symbol cfg \<and> py_float (positionAmt pos) \<noteq> 0)
           positions = []"
    and "determine_signal df = Some sg"
  shows "run_try cfg w =
     (case place_order cfg sg (close (last df))
             (w\<lparr>klines_responses := krest, position_responses := prest,
                calls := calls w @ [Futures_klines (symbol cfg) (interval cfg) 100,
                                    Futures_position_information (symbol cfg)]\<rparr>) of
        (Inl e, w3) \<Rightarrow> (Inl e, w3)
      | (Inr None, w3) \<Rightarrow> (Inr (), w3)
      | (Inr (Some ord), w3) \<Rightarrow>
          (case calculate_order_quantity cfg (close (last df)) w3 of
             (Inl e, w4) \<Rightarrow> (Inl e, w4)
           | (Inr quantity, w4) \<Rightarrow>
               (case place_trailing_stop cfg sg quantity w4 of
                  (Inl e, w5) \<Rightarrow> (Inl e, w5)
                | (Inr placed, w5) \<Rightarrow> manage_stop_orders cfg sg w5)))"
  using assms determine_signal_Some_nonempty [OF assms(5)]
  by (simp add: run_try_def get_klines_def futures_klines_def next_response_def
      futures_position_information_def Let_def)

lemma run_try_flat_signal_calls:
  fixes cfg w df sg
  defines "raw1 \<equiv>
      float_div
        (float_mul
           (float_mul (available_balance_value (next_response (balance_responses w)))
              (base_capital_pct cfg))
           (leverage cfg))
        (close (last df))"
    and "raw2 \<equiv>
      float_div
        (float_mul
           (float_mul (available_balance_value (next_response (tl (balance_responses w))))
              (base_capital_pct cfg))
           (leverage cfg))
        (close (last df))"
  defines "entry_quantity \<equiv>
      round_quantity_value (symbol cfg) (next_response (symbol_info_responses w)) raw1"
    and "stop_quantity \<equiv>
      round_quantity_value (symbol cfg) (next_response (tl (tl (symbol_info_responses w))))
        (round_quantity_value (symbol cfg) (next_response (tl (symbol_info_responses w)))
           raw2)"
  assumes k: "klines_responses w = Inr klines # krest"
    and e: "calculate_ema cfg klines = Inr df"
    and p: "position_responses w = Inr positions # prest"
    and flat: "filter (\<lambda>pos. position_symbol pos = symbol cfg
                              \<and> py_float (positionAmt pos) \<noteq> 0) positions
                 = []"
    and s: "determine_signal df = Some sg"
    and nz: "close (last df) \<noteq> 0"
  shows "\<exists>post.
     calls (snd (run_try cfg w)) =
       calls w @ [Futures_klines (symbol cfg) (interval cfg) 100,
                  Futures_position_information (symbol cfg),
                  Futures_account_balance, Get_symbol_info (symbol cfg),
                  Futures_create_order (market_order_request cfg sg entry_quantity)]
         @ (case next_response (create_order_responses w) of
              Inl ex \<Rightarrow> []
            | Inr ord \<Rightarrow>
                [Futures_account_balance, Get_symbol_info (symbol cfg),
                 Get_symbol_info (symbol cfg)]
                @ map Futures_create_order
                    (trailing_stop_submissions cfg sg stop_quantity
                       (tl (create_order_responses w)))
                @ (if placement_returns (tl (create_order_responses w))
                   then Futures_get_open_orders (symbol cfg) # post else []))
     \<and> create_requests post = []"
proof -
  define w2 where "w2 =
    w\<lparr>klines_responses := krest, position_responses := prest,
      calls := calls w @ [Futures_klines (symbol cfg) (interval cfg) 100,
                          Futures_position_information (symbol cfg)]\<rparr>"
  define w3 where "w3 = snd (place_order cfg sg (close (last df)) w2)"
  have rt: "run_try cfg w =
     (case place_order cfg sg (close (last df)) w2 of
        (Inl e, w3) \<Rightarrow> (Inl e, w3)
      | (Inr None, w3) \<Rightarrow> (Inr (), w3)
      | (Inr (Some ord), w3) \<Rightarrow>
          (case calculate_order_quantity cfg (close (last df)) w3 of
             (Inl e, w4) \<Rightarrow> (Inl e, w4)
           | (Inr quantity, w4) \<Rightarrow>
               (case place_trailing_stop cfg sg quantity w4 of
                  (Inl e, w5) \<Rightarrow> (Inl e, w5)
                | (Inr placed, w5) \<Rightarrow> manage_stop_orders cfg sg w5)))"
    unfolding w2_def by (rule run_try_flat_signal [OF k e p flat s])
  have po_fst: "fst (place_order cfg sg (close (last df)) w2) =
           (case next_response (create_order_responses w) of
              Inr ord \<Rightarrow> Inr (Some ord)
            | Inl e \<Rightarrow> if is_api_exception e then Inr None else Inl e)"
    using place_order_eq(1) [OF nz, of cfg sg w2] by (simp add: w2_def)
  have w3_calls: "calls w3 =
       calls w @ [Futures_klines (symbol cfg) (interval cfg) 100,
                  Futures_position_information (symbol cfg),
                  Futures_account_balance, Get_symbol_info (symbol cfg),
                  Futures_create_order (market_order_request cfg sg entry_quantity)]"
    unfolding w3_def entry_quantity_def raw1_def
    using place_order_eq(2) [OF nz, of cfg sg w2] by (simp add: w2_def)
  have w3_fields: "balance_responses w3 = tl (balance_responses w)"
    "symbol_info_responses w3 = tl (symbol_info_responses w)"
    "create_order_responses w3 = tl (create_order_responses w)"
    unfolding w3_def
    using place_order_eq(3,4,5) [OF nz, of cfg sg w2] by (simp_all add: w2_def)
  show ?thesis
  proof (cases "next_response (create_order_responses w)")
    case (Inl ex)
    then have "snd (run_try cfg w) = w3"
      unfolding rt w3_def using po_fst
      by (auto simp: case_prod_beta split: sum.splits option.splits if_splits)
    then show ?thesis using Inl w3_calls by (auto intro: exI [of _ "[]"])
  next
    case (Inr ord)
    define q2 where "q2 =
      round_quantity_value (symbol cfg) (next_response (tl (symbol_info_responses w))) raw2"
    define w4 where "w4 = snd (calculate_order_quantity cfg (close (last df)) w3)"
    have coq: "calculate_order_quantity cfg (close (last df)) w3 = (Inr q2, w4)"
      unfolding w4_def q2_def raw2_def
      by (simp add: calculate_order_quantity_eq [OF nz] w3_fields
          calculate_order_quantity_value_def Let_def nz)
    have w4_calls: "calls w4 = calls w3 @ [Futures_account_balance, Get_symbol_info (symbol cfg)]"
      and w4_fields: "symbol_info_responses w4 = tl (tl (symbol_info_responses w))"
        "create_order_responses w4 = tl (create_order_responses w)"
      unfolding w4_def by (simp_all add: calculate_order_quantity_eq [OF nz] w3_fields)
    define w5 where "w5 = snd (place_trailing_stop cfg sg q2 w4)"
    have w5_calls: "calls w5 = calls w4 @ Get_symbol_info (symbol cfg)
        # map Futures_create_order
            (trailing_stop_submissions cfg sg stop_quantity (tl (create_order_responses w)))"
      unfolding w5_def stop_quantity_def q2_def
      by (simp add: place_trailing_stop_calls w4_fields)
    have rt2: "run_try cfg w =
        (case place_trailing_stop cfg sg q2 w4 of
           (Inl e, w5) \<Rightarrow> (Inl e, w5)
         | (Inr placed, w5) \<Rightarrow> manage_stop_orders cfg sg w5)"
      unfolding rt using po_fst Inr coq
      by (simp add: case_prod_beta w3_def split: sum.splits option.splits)
    show ?thesis
    proof (cases "placement_returns (tl (create_order_responses w))")
      case True
      then obtain placed where "fst (place_trailing_stop cfg sg q2 w4) = Inr placed"
        using place_trailing_stop_returns [of cfg sg q2 w4] by (auto simp: w4_fields)
      then have "snd (run_try cfg w) = snd (manage_stop_orders cfg sg w5)"
        unfolding rt2 w5_def by (simp add: case_prod_beta)
      moreover obtain post where
        "calls (snd (manage_stop_orders cfg sg w5))
           = calls w5 @ Futures_get_open_orders (symbol cfg) # post"
        "create_requests post = []"
        using manage_stop_orders_calls [of cfg sg w5] by blast
      ultimately show ?thesis
        using True Inr by (auto simp: w5_calls w4_calls w3_calls)
    next
      case False
      then have "\<not> (\<exists>placed. fst (place_trailing_stop cfg sg q2 w4) = Inr placed)"
        using place_trailing_stop_returns [of cfg sg q2 w4] by (simp add: w4_fields)
      then have "snd (run_try cfg w) = w5"
        unfolding rt2 w5_def by (auto simp: case_prod_beta split: sum.splits)
      then show ?thesis
        using False Inr by (auto simp: w5_calls w4_calls w3_calls intro: exI [of _ "[]"])
    qed
  qed
qed

text \<open>The definitions and values a concrete run unfolds.\<close>

lemmas run_simps =
  run_iteration_def run_try_def get_klines_def futures_klines_def
  futures_position_information_def calculate_ema_def ewm_mean_def determine_signal_def
  place_order_def calculate_order_quantity_eq calculate_order_quantity_zero round_quantity_eq
  futures_create_order_def market_order_request_def
  place_trailing_stop_def trailing_stop_request_def manage_stop_orders_def
  futures_get_open_orders_def futures_cancel_order_def reconnect_def client_init_def
  set_leverage_def futures_change_leverage_def log_event_def next_response_def
  default_config_def no_responses_def available_balance_value_def
  available_balance_events_def Let_def
  py_float_1000 py_float_900 calc_entry_1000 [simplified] calc_entry_900 [simplified]
  calc_entry_90005 [simplified] round_quantity_value_4275 round_quantity_value_427523

section \<open>Signal detection\<close>

text \<open>
  Claim C1. For the last two rows of the data frame, with
  \<open>d_prev = ema_fast prev_row - ema_slow prev_row\<close> and
  \<open>d_last = ema_fast last_row - ema_slow last_row\<close>, \<open>determine_signal\<close> answers
  LONG exactly when \<open>d_prev \<le> 0\<close> and \<open>0 < d_last\<close>, SHORT exactly when
  \<open>0 \<le> d_prev\<close> and \<open>d_last < 0\<close>, and \<open>None\<close> in every other case; the two
  conditions exclude each other, so no input gives both signals.
\<close>

theorem determine_signal_crossover:
  "(determine_signal (df @ [prev_row, last_row]) = Some LONG \<longleftrightarrow>
      ema_fast prev_row - ema_slow prev_row \<le> 0 \<and> 0 < ema_fast last_row - ema_slow last_row)
   \<and> (determine_signal (df @ [prev_row, last_row]) = Some SHORT \<longleftrightarrow>
      0 \<le> ema_fast prev_row - ema_slow prev_row \<and> ema_fast last_row - ema_slow last_row < 0)
   \<and> (determine_signal (df @ [prev_row, last_row]) = None \<longleftrightarrow>
      \<not> (ema_fast prev_row - ema_slow prev_row \<le> 0 \<and> 0 < ema_fast last_row - ema_slow last_row)
      \<and> \<not> (0 \<le> ema_fast prev_row - ema_slow prev_row \<and> ema_fast last_row - ema_slow last_row < 0))
   \<and> \<not> ((ema_fast prev_row - ema_slow prev_row \<le> 0 \<and> 0 < ema_fast last_row - ema_slow last_row)
        \<and> (0 \<le> ema_fast prev_row - ema_slow prev_row \<and> ema_fast last_row - ema_slow last_row < 0))"
  by (auto simp: determine_signal_def Let_def nth_append)

text \<open>
  Scenario B of the spec (differences \<open>-0.5\<close> then \<open>+0.3\<close>) gives LONG; two rows
  whose averages coincide give no signal.
\<close>

theorem determine_signal_crossover_witness:
  "determine_signal [\<lparr>close = 10, ema_fast = 19 / 2, ema_slow = 10\<rparr>,
                     \<lparr>close = 11, ema_fast = 103 / 10, ema_slow = 10\<rparr>] = Some LONG
   \<and> determine_signal [\<lparr>close = 10, ema_fast = 10, ema_slow = 10\<rparr>,
                       \<lparr>close = 10, ema_fast = 10, ema_slow = 10\<rparr>] = None"
  using determine_signal_crossover
          [of "[]" "\<lparr>close = 10, ema_fast = 19 / 2, ema_slow = 10\<rparr>"
              "\<lparr>close = 11, ema_fast = 103 / 10, ema_slow = 10\<rparr>"]
        determine_signal_crossover
          [of "[]" "\<lparr>close = 10, ema_fast = 10, ema_slow = 10\<rparr>"
              "\<lparr>close = 10, ema_fast = 10, ema_slow = 10\<rparr>"]
  by simp

section \<open>Order sizing\<close>

lemma py_float_nonneg: "0 \<le> x \<Longrightarrow> 0 \<le> py_float x"
  unfolding py_float_def by (rule float_round_nonneg)

lemma py_round_decimal_error:
  "py_round x n = float_round (round_decimal x n)
   \<and> \<bar>round_decimal x n - x\<bar> \<le> rounding_tolerance n"
  by (simp add: py_round_def round_decimal_error)

lemma floor_eq_py_int: "0 \<le> x \<Longrightarrow> \<lfloor>x\<rfloor> = py_int x"
  by (simp add: py_int_def)

lemma step_quotient_nonneg:
  assumes "0 \<le> balance" "0 \<le> capital_fraction" "0 \<le> lev" "0 < entry_price" "0 < step"
  shows "0 \<le> float_div
                 (float_div (float_mul (float_mul balance capital_fraction) lev) entry_price) step"
  using float_div_mono_left [OF assms(5), of 0
          "float_div (float_mul (float_mul balance capital_fraction) lev) entry_price"]
    raw_quantity_nonneg [OF assms(4,1,2,3)]
  by (simp add: float_div_zero)

text \<open>
  Claim C2, as stated, fails: nothing in \<^verbatim>\<open>calculate_order_quantity\<close> or
  \<^verbatim>\<open>round_quantity\<close> guards the sign of its inputs. With a balance of 1000 and an
  entry price of \<open>-100\<close> the quantity returned is \<open>-95\<close>, neither non-negative nor 0;
  this is so for the capital fraction taken as the decimal \<open>0.95\<close> and as the float
  nearest to it.
\<close>

theorem calculate_order_quantity_negative_counterexample:
  "calculate_order_quantity_value ''ETHUSDT'' 1000 (95 / 100) 10
     (symbol_filters (1 / 100) 2) (- 100) = Inr (- 95)
   \<and> calculate_order_quantity_value ''ETHUSDT'' 1000 (py_float (95 / 100)) 10
     (symbol_filters (1 / 100) 2) (- 100) = Inr (- 95)"
  by (intro conjI calc_negative_price calc_negative_price_float)

text \<open>
  Claim C2, amended. For a positive entry price and non-negative balance, capital
  fraction and leverage, whatever \<^verbatim>\<open>get_symbol_info\<close> answers, the quantity
  returned is non-negative, and it is 0 when the balance is 0. With an entry price of 0
  the function raises \<^verbatim>\<open>ZeroDivisionError\<close> and returns nothing.
\<close>

theorem calculate_order_quantity_nonneg:
  "(0 < entry_price \<and> 0 \<le> balance \<and> 0 \<le> capital_fraction \<and> 0 \<le> lev \<longrightarrow>
      (\<exists>q. calculate_order_quantity_value symbol_name balance capital_fraction lev resp
              entry_price = Inr q \<and> 0 \<le> q \<and> (balance = 0 \<longrightarrow> q = 0)))
   \<and> calculate_order_quantity_value symbol_name balance capital_fraction lev resp 0
       = Inl ZeroDivisionError"
  by (auto simp: calculate_order_quantity_value_def Let_def round_quantity_value_zero
      float_mul_zero float_div_zero
      intro!: round_quantity_value_nonneg raw_quantity_nonneg)

theorem calculate_order_quantity_nonneg_witness:
  "calculate_order_quantity_value ''ETHUSDT'' 0 (95 / 100) 10 (symbol_filters (1 / 100) 2) 100
     = Inr 0"
  using calculate_order_quantity_nonneg
          [of 100 0 "95 / 100" 10 "''ETHUSDT''" "symbol_filters (1 / 100) 2"]
  by auto

text \<open>
  Claim C3, as stated, fails in two ways. \<^verbatim>\<open>math.floor\<close> rounds towards minus
  infinity: with a balance of \<open>-1\<close>, an entry price of 3 and a step of \<open>0.01\<close> the code
  returns \<open>-0.34\<close>, where truncation towards zero gives \<open>-0.33\<close>. And every operation
  of the code rounds to a float: with a balance of 6, the fraction \<open>0.95\<close>, a leverage of
  10 and a price of 1 the product \<open>6 * 0.95\<close> is the float below \<open>5.7\<close> and the code
  returns \<open>56.99\<close>, where the exact raw value 57 is a multiple of the step. Reading the
  inputs as the floats they are does not help the exact formula: for scenario A of the
  spec it gives \<open>94.99\<close>, and the code returns 95. Each time the two values are further
  apart than the rounding tolerance of the precision.
\<close>

theorem calculate_order_quantity_truncation_counterexample:
  "calculate_order_quantity_value ''ETHUSDT'' (- 1) 1 1 (symbol_filters (1 / 100) 2) 3
     = Inr (py_float (- 34 / 100))
   \<and> spec_compute_quantity (- 1) 1 1 3 (1 / 100) 2 = - 33 / 100
   \<and> rounding_tolerance 2
       < \<bar>py_float (- 34 / 100) - spec_compute_quantity (- 1) 1 1 3 (1 / 100) 2\<bar>
   \<and> calculate_order_quantity_value ''ETHUSDT'' 6 (py_float (95 / 100)) 10
       (symbol_filters (1 / 100) 2) 1
     = Inr (py_float (5699 / 100))
   \<and> spec_compute_quantity 6 (95 / 100) 10 1 (1 / 100) 2 = 57
   \<and> rounding_tolerance 2
       < \<bar>py_float (5699 / 100) - spec_compute_quantity 6 (95 / 100) 10 1 (1 / 100) 2\<bar>
   \<and> calculate_order_quantity_value ''ETHUSDT'' 1000 (py_float (95 / 100)) 10
       (symbol_filters (1 / 100) 2) 100
     = Inr 95
   \<and> spec_compute_quantity 1000 (py_float (95 / 100)) 10 100 (py_float (1 / 100)) 2
     = 9499 / 100"
proof -
  have s1: "spec_compute_quantity (- 1) 1 1 3 (1 / 100) 2 = - 33 / 100"
    by (simp add: spec_compute_quantity_def py_int_def round_decimal_def round_half_even_def)
  have s2: "spec_compute_quantity 6 (95 / 100) 10 1 (1 / 100) 2 = 57"
    by (simp add: spec_compute_quantity_def py_int_def round_decimal_def round_half_even_def)
  have s3: "spec_compute_quantity 1000 (py_float (95 / 100)) 10 100 (py_float (1 / 100)) 2
              = 9499 / 100"
    unfolding py_float_95 py_float_cent
    by (simp add: spec_compute_quantity_def py_int_def round_decimal_def round_half_even_def)
  have d1: "rounding_tolerance 2 < \<bar>py_float (- 34 / 100) - (- 33 / 100)\<bar>"
    unfolding py_float_minus_34 by (simp add: rounding_tolerance_def)
  have d2: "rounding_tolerance 2 < \<bar>py_float (5699 / 100) - 57\<bar>"
    unfolding py_float_5699 by (simp add: rounding_tolerance_def)
  show ?thesis
    unfolding s1 s2 s3
    by (intro conjI calc_negative_balance calc_balance_6 calc_scenario_A_float d1 d2 refl)
qed

text \<open>
  Claim C3, amended. For a positive entry price and filters whose step size is not 0 as a
  float, the quantity returned is computed in floats throughout: the raw value
  \<open>((balance * capital_fraction) * lev) / entry_price\<close>, its quotient by the step
  size rounded down (towards minus infinity) to an integer, the product of that integer
  with the step size, and the rounding of the product to the quantity precision. For
  non-negative balance, capital fraction and leverage and a positive step, rounding down
  is truncation towards zero (\<open>py_int\<close>).
\<close>

theorem calculate_order_quantity_floor:
  fixes balance capital_fraction lev entry_price step_size :: real
  defines "step \<equiv> py_float step_size"
    and "raw \<equiv> float_div (float_mul (float_mul balance capital_fraction) lev) entry_price"
  shows
  "0 < entry_price \<and> step \<noteq> 0 \<longrightarrow>
     calculate_order_quantity_value symbol_name balance capital_fraction lev
         (symbol_filters step_size quantity_precision) entry_price
       = Inr (py_round (float_mul (float_of_int \<lfloor>float_div raw step\<rfloor>) step)
                quantity_precision)
     \<and> (0 \<le> balance \<and> 0 \<le> capital_fraction \<and> 0 \<le> lev \<and> 0 < step \<longrightarrow>
          \<lfloor>float_div raw step\<rfloor> = py_int (float_div raw step))"
  unfolding step_def raw_def
  by (auto simp: calculate_order_quantity_value_Inr round_quantity_value_filters
      intro!: floor_eq_py_int step_quotient_nonneg)

text \<open>
  With a balance of 1000, the fraction \<open>0.95\<close>, a leverage of 10 and a price of 3 the
  quantity is \<open>3166.66\<close>.
\<close>

theorem calculate_order_quantity_floor_witness:
  "calculate_order_quantity_value ''ETHUSDT'' 1000 (py_float (95 / 100)) 10
     (symbol_filters (1 / 100) 2) 3
   = Inr (py_float (316666 / 100))"
proof -
  have h: "0 < (3::real) \<and> py_float (1 / 100) \<noteq> 0"
    by (simp add: py_float_cent)
  from calculate_order_quantity_floor
         [of 3 "1 / 100" "''ETHUSDT''" 1000 "py_float (95 / 100)" 10 2] h
  have "calculate_order_quantity_value ''ETHUSDT'' 1000 (py_float (95 / 100)) 10
          (symbol_filters (1 / 100) 2) 3
        = Inr (py_round
                 (float_mul
                    (float_of_int
                       \<lfloor>float_div
                          (float_div (float_mul (float_mul 1000 (py_float (95 / 100))) 10) 3)
                          (py_float (1 / 100))\<rfloor>)
                    (py_float (1 / 100))) 2)"
    by blast
  then show ?thesis
    by (simp only: calc_price_3)
qed

text \<open>
  Claim C4, as stated, fails: for scenario A of the spec the raw quantity is
  \<open>1000 * 0.95 * 10 / 100 = 95\<close>, so the result is not 950; this is so for the capital
  fraction taken as the decimal \<open>0.95\<close> and as the float nearest to it.
\<close>

theorem calculate_order_quantity_scenario_counterexample:
  "calculate_order_quantity_value ''ETHUSDT'' 1000 (95 / 100) 10
     (symbol_filters (1 / 100) 2) 100 \<noteq> Inr 950
   \<and> calculate_order_quantity_value ''ETHUSDT'' 1000 (py_float (95 / 100)) 10
     (symbol_filters (1 / 100) 2) 100 \<noteq> Inr 950"
  unfolding calc_scenario_A calc_scenario_A_float by simp

text \<open>
  Claim C4, amended. With a balance of 1000, a capital fraction of 0.95, a leverage of 10,
  an entry price of 100, a step size of 0.01 and a precision of 2, the quantity returned
  is 95, for the capital fraction taken as the decimal and as the float nearest to it.
\<close>

theorem calculate_order_quantity_scenario:
  "calculate_order_quantity_value ''ETHUSDT'' 1000 (95 / 100) 10
     (symbol_filters (1 / 100) 2) 100 = Inr 95
   \<and> calculate_order_quantity_value ''ETHUSDT'' 1000 (py_float (95 / 100)) 10
     (symbol_filters (1 / 100) 2) 100 = Inr 95"
  by (intro conjI calc_scenario_A calc_scenario_A_float)

text \<open>
  Claim C5, as stated, fails. The round trip does not give the result back: with a step
  of \<open>0.01\<close> and a precision of 2 the code returns \<open>0.29\<close> for a balance of \<open>0.295\<close>,
  and \<open>floor (0.29 / 0.01) * 0.01\<close> is \<open>0.28\<close> in floats, further from \<open>0.29\<close> than
  the tolerance \<open>0.005\<close>. The result also falls when the balance grows from 1 to 2
  under a leverage of \<open>-1\<close>: monotonicity needs the signs of the other arguments.
\<close>

theorem calculate_order_quantity_round_trip_counterexample:
  "calculate_order_quantity_value ''ETHUSDT'' (py_float (295 / 1000)) 1 1
     (symbol_filters (1 / 100) 2) 1
     = Inr (py_float (29 / 100))
   \<and> rounding_tolerance 2
       < \<bar>float_mul (float_of_int \<lfloor>float_div (py_float (29 / 100)) (py_float (1 / 100))\<rfloor>)
            (py_float (1 / 100))
          - py_float (29 / 100)\<bar>
   \<and> calculate_order_quantity_value ''ETHUSDT'' 1 1 (- 1) (symbol_filters (1 / 100) 2) 1
     = Inr (- 1)
   \<and> calculate_order_quantity_value ''ETHUSDT'' 2 1 (- 1) (symbol_filters (1 / 100) 2) 1
     = Inr (- 2)"
proof -
  have d: "rounding_tolerance 2
       < \<bar>float_mul (float_of_int \<lfloor>float_div (py_float (29 / 100)) (py_float (1 / 100))\<rfloor>)
            (py_float (1 / 100))
          - py_float (29 / 100)\<bar>"
    unfolding round_trip_29 unfolding py_float_29 by (simp add: rounding_tolerance_def)
  show ?thesis
    by (intro conjI calc_balance_295 d calc_negative_leverage_1 calc_negative_leverage_2)
qed

text \<open>
  Claim C5, amended. For a positive entry price, whatever \<^verbatim>\<open>get_symbol_info\<close>
  answers: the quantity is non-decreasing in the balance when capital fraction and
  leverage are non-negative, non-decreasing in the leverage when balance and capital
  fraction are non-negative, and non-increasing in the entry price when balance, capital
  fraction and leverage are non-negative. With a step size that is not 0 as a float and a
  quantity precision, the quantity is the float nearest to a decimal that lies within
  the rounding tolerance of that precision of the step multiple
  \<open>floor (raw / step) * step\<close> as the code computes it, in floats, from the raw value.
\<close>

theorem calculate_order_quantity_monotone:
  fixes balance capital_fraction lev entry_price step_size :: real
  defines "step \<equiv> py_float step_size"
    and "raw \<equiv> float_div (float_mul (float_mul balance capital_fraction) lev) entry_price"
  defines "multiple \<equiv> float_mul (float_of_int \<lfloor>float_div raw step\<rfloor>) step"
  shows
  "(0 < entry_price \<and> 0 \<le> capital_fraction \<and> 0 \<le> lev \<and> b1 \<le> b2 \<longrightarrow>
      (\<exists>q1 q2.
         calculate_order_quantity_value symbol_name b1 capital_fraction lev resp entry_price
           = Inr q1
         \<and> calculate_order_quantity_value symbol_name b2 capital_fraction lev resp entry_price
           = Inr q2
         \<and> q1 \<le> q2))
   \<and> (0 < entry_price \<and> 0 \<le> balance \<and> 0 \<le> capital_fraction \<and> l1 \<le> l2 \<longrightarrow>
      (\<exists>q1 q2.
         calculate_order_quantity_value symbol_name balance capital_fraction l1 resp entry_price
           = Inr q1
         \<and> calculate_order_quantity_value symbol_name balance capital_fraction l2 resp entry_price
           = Inr q2
         \<and> q1 \<le> q2))
   \<and> (0 < p1 \<and> p1 \<le> p2 \<and> 0 \<le> balance \<and> 0 \<le> capital_fraction \<and> 0 \<le> lev \<longrightarrow>
      (\<exists>q1 q2.
         calculate_order_quantity_value symbol_name balance capital_fraction lev resp p1
           = Inr q1
         \<and> calculate_order_quantity_value symbol_name balance capital_fraction lev resp p2
           = Inr q2
         \<and> q2 \<le> q1))
   \<and> (0 < entry_price \<and> step \<noteq> 0 \<longrightarrow>
        calculate_order_quantity_value symbol_name balance capital_fraction lev
            (symbol_filters step_size quantity_precision) entry_price
          = Inr (float_round (round_decimal multiple quantity_precision))
        \<and> \<bar>round_decimal multiple quantity_precision - multiple\<bar>
            \<le> rounding_tolerance quantity_precision)"
proof (intro conjI impI)
  assume "0 < entry_price \<and> 0 \<le> capital_fraction \<and> 0 \<le> lev \<and> b1 \<le> b2"
  then show "\<exists>q1 q2.
         calculate_order_quantity_value symbol_name b1 capital_fraction lev resp entry_price
           = Inr q1
         \<and> calculate_order_quantity_value symbol_name b2 capital_fraction lev resp entry_price
           = Inr q2
         \<and> q1 \<le> q2"
    by (simp add: calculate_order_quantity_value_Inr round_quantity_value_mono
        raw_quantity_mono_balance)
next
  assume "0 < entry_price \<and> 0 \<le> balance \<and> 0 \<le> capital_fraction \<and> l1 \<le> l2"
  then show "\<exists>q1 q2.
         calculate_order_quantity_value symbol_name balance capital_fraction l1 resp entry_price
           = Inr q1
         \<and> calculate_order_quantity_value symbol_name balance capital_fraction l2 resp entry_price
           = Inr q2
         \<and> q1 \<le> q2"
    by (simp add: calculate_order_quantity_value_Inr round_quantity_value_mono
        raw_quantity_mono_leverage)
next
  assume a: "0 < p1 \<and> p1 \<le> p2 \<and> 0 \<le> balance \<and> 0 \<le> capital_fraction \<and> 0 \<le> lev"
  then have "p1 \<noteq> 0" "p2 \<noteq> 0" by auto
  then show "\<exists>q1 q2.
         calculate_order_quantity_value symbol_name balance capital_fraction lev resp p1
           = Inr q1
         \<and> calculate_order_quantity_value symbol_name balance capital_fraction lev resp p2
           = Inr q2
         \<and> q2 \<le> q1"
    using a
    by (simp add: calculate_order_quantity_value_Inr round_quantity_value_mono
        raw_quantity_antimono_price)
next
  assume "0 < entry_price \<and> step \<noteq> 0"
  then show "calculate_order_quantity_value symbol_name balance capital_fraction lev
            (symbol_filters step_size quantity_precision) entry_price
          = Inr (float_round (round_decimal multiple quantity_precision))"
    unfolding multiple_def raw_def step_def
    by (simp add: calculate_order_quantity_value_Inr round_quantity_value_filters py_round_def)
next
  show "\<bar>round_decimal multiple quantity_precision - multiple\<bar>
            \<le> rounding_tolerance quantity_precision"
    by (rule round_decimal_error)
qed

text \<open>
  Around scenario A the quantity doubles with the balance and with the leverage and
  halves when the price doubles. With a balance of 6 and a price of 1 the step multiple
  is the float \<open>56.99\<close> (the fraction below), within the tolerance of the decimal
  \<open>56.99\<close>.
\<close>

theorem calculate_order_quantity_monotone_witness:
  "calculate_order_quantity_value ''ETHUSDT'' 1000 (py_float (95 / 100)) 10
       (symbol_filters (1 / 100) 2) 100 = Inr 95
   \<and> calculate_order_quantity_value ''ETHUSDT'' 2000 (py_float (95 / 100)) 10
       (symbol_filters (1 / 100) 2) 100 = Inr 190
   \<and> calculate_order_quantity_value ''ETHUSDT'' 1000 (py_float (95 / 100)) 20
       (symbol_filters (1 / 100) 2) 100 = Inr 190
   \<and> calculate_order_quantity_value ''ETHUSDT'' 1000 (py_float (95 / 100)) 10
       (symbol_filters (1 / 100) 2) 200 = Inr (95 / 2)
   \<and> calculate_order_quantity_value ''ETHUSDT'' 6 (py_float (95 / 100)) 10
       (symbol_filters (1 / 100) 2) 1
     = Inr (float_round (round_decimal (8020629461370143 / 140737488355328) 2))
   \<and> \<bar>round_decimal (8020629461370143 / 140737488355328) 2
        - 8020629461370143 / 140737488355328\<bar> \<le> rounding_tolerance 2"
proof -
  have f: "0 \<le> py_float (95 / 100)"
    by (rule py_float_nonneg) simp
  have h1: "0 < (100::real) \<and> 0 \<le> py_float (95 / 100) \<and> 0 \<le> (10::real)
              \<and> (1000::real) \<le> 2000"
    and h2: "0 < (100::real) \<and> (0::real) \<le> 1000 \<and> 0 \<le> py_float (95 / 100)
              \<and> (10::real) \<le> 20"
    and h3: "0 < (100::real) \<and> (100::real) \<le> 200 \<and> (0::real) \<le> 1000
              \<and> 0 \<le> py_float (95 / 100) \<and> 0 \<le> (10::real)"
    and h4: "0 < (1::real) \<and> py_float (1 / 100) \<noteq> 0"
    using f by (simp_all add: py_float_cent)
  note scenario = calculate_order_quantity_monotone
      [where entry_price = 100 and capital_fraction = "py_float (95 / 100)" and lev = 10
         and ?b1.0 = 1000 and ?b2.0 = 2000 and balance = 1000 and ?l1.0 = 10 and ?l2.0 = 20
         and ?p1.0 = 100 and ?p2.0 = 200 and symbol_name = "''ETHUSDT''"
         and resp = "symbol_filters (1 / 100) 2" and step_size = "1 / 100"
         and quantity_precision = 2]
  note small = calculate_order_quantity_monotone
      [where entry_price = 1 and capital_fraction = "py_float (95 / 100)" and lev = 10
         and balance = 6 and symbol_name = "''ETHUSDT''" and step_size = "1 / 100"
         and quantity_precision = 2]
  from scenario h1 h2 h3 have
    "\<exists>q1 q2. calculate_order_quantity_value ''ETHUSDT'' 1000 (py_float (95 / 100)) 10
                (symbol_filters (1 / 100) 2) 100 = Inr q1
            \<and> calculate_order_quantity_value ''ETHUSDT'' 2000 (py_float (95 / 100)) 10
                (symbol_filters (1 / 100) 2) 100 = Inr q2
            \<and> q1 \<le> q2"
    by blast
  moreover from small h4 have
    "calculate_order_quantity_value ''ETHUSDT'' 6 (py_float (95 / 100)) 10
       (symbol_filters (1 / 100) 2) 1
     = Inr (float_round (round_decimal (8020629461370143 / 140737488355328) 2))
     \<and> \<bar>round_decimal (8020629461370143 / 140737488355328) 2
          - 8020629461370143 / 140737488355328\<bar> \<le> rounding_tolerance 2"
    unfolding step_multiple_balance_6 by blast
  ultimately show ?thesis
    by (simp only: calc_scenario_A_float calc_balance_2000 calc_leverage_20 calc_price_200)
qed

section \<open>Protective orders\<close>

text \<open>
  Claim C6. \<open>place_trailing_stop\<close> rounds the quantity and then submits. If the first
  submission is accepted, that order is returned and it was the only submission. If the
  first is rejected (\<^verbatim>\<open>BinanceAPIException\<close>) and the second accepted, the second
  order is returned after exactly two submissions; if both are rejected, \<^verbatim>\<open>None\<close> is
  returned after exactly two submissions. The retry differs only in its callback rate,
  \<open>1 / 2\<close> instead of 1.
\<close>

theorem place_trailing_stop_attempts:
  fixes cfg sg quantity0 w
  defines "quantity \<equiv>
    round_quantity_value (symbol cfg) (next_response (symbol_info_responses w)) quantity0"
  shows
  "(create_order_responses w = Inr ord # rest \<longrightarrow>
      fst (place_trailing_stop cfg sg quantity0 w) = Inr (Some ord)
      \<and> create_requests (calls (snd (place_trailing_stop cfg sg quantity0 w)))
          = create_requests (calls w) @ [trailing_stop_request cfg sg quantity 1])
   \<and> (create_order_responses w = Inl (BinanceAPIException m) # Inr ord2 # rest \<longrightarrow>
      fst (place_trailing_stop cfg sg quantity0 w) = Inr (Some ord2)
      \<and> create_requests (calls (snd (place_trailing_stop cfg sg quantity0 w)))
          = create_requests (calls w)
            @ [trailing_stop_request cfg sg quantity 1,
               trailing_stop_request cfg sg quantity (1 / 2)])
   \<and> (create_order_responses w
         = Inl (BinanceAPIException m) # Inl (BinanceAPIException m2) # rest \<longrightarrow>
      fst (place_trailing_stop cfg sg quantity0 w) = Inr None
      \<and> create_requests (calls (snd (place_trailing_stop cfg sg quantity0 w)))
          = create_requests (calls w)
            @ [trailing_stop_request cfg sg quantity 1,
               trailing_stop_request cfg sg quantity (1 / 2)])
   \<and> callbackRate (trailing_stop_request cfg sg quantity 1) = Some 1
   \<and> callbackRate (trailing_stop_request cfg sg quantity (1 / 2)) = Some (1 / 2)"
  unfolding quantity_def
  by (simp add: place_trailing_stop_def round_quantity_eq futures_create_order_def
      log_event_def next_response_def trailing_stop_request_def Let_def)


text \<open>A rejection followed by an acceptance: two submissions, the second order returned.\<close>

theorem place_trailing_stop_attempts_witness:
  "fst (place_trailing_stop default_config LONG 5 retry_world)
     = Inr (Some \<lparr>orderId = 7, order_type = ''TRAILING_STOP_MARKET''\<rparr>)
   \<and> create_requests (calls (snd (place_trailing_stop default_config LONG 5 retry_world)))
     = [trailing_stop_request default_config LONG 5 1,
        trailing_stop_request default_config LONG 5 (1 / 2)]"
  using place_trailing_stop_attempts
          [where w = retry_world and cfg = default_config and sg = LONG and ?quantity0.0 = 5
             and m = "''rejected''"
             and ?ord2.0 = "\<lparr>orderId = 7, order_type = ''TRAILING_STOP_MARKET''\<rparr>"
             and rest = "[]"]
  by (simp add: retry_world_def default_config_def no_responses_def next_response_def
      round_quantity_value_5)

text \<open>
  Claim C10, as stated, fails: the success record is not written in every execution. When
  \<^verbatim>\<open>futures_create_order\<close> raises an exception that is not a
  \<^verbatim>\<open>BinanceAPIException\<close>, no handler of \<open>place_trailing_stop\<close> or of
  \<open>check_and_place_trailing_stop\<close> catches it: the exception reaches the caller and
  the log ends with the record of the rounding.
\<close>

theorem check_and_place_trailing_stop_escape_counterexample:
  "check_and_place_trailing_stop default_config SHORT 5 failing_placement_world
     = (Inl (Other_exception ''timed out''),
        failing_placement_world
          \<lparr>symbol_info_responses := [], create_order_responses := [],
           open_orders_responses := [],
           calls := [Futures_get_open_orders ''ETHUSDT'', Get_symbol_info ''ETHUSDT'',
                     Futures_create_order
                       \<lparr>request_symbol = ''ETHUSDT'', request_side = SIDE_BUY,
                        request_type = ''TRAILING_STOP_MARKET'', request_quantity = 5,
                        callbackRate = Some 1, timeInForce = Some ''GTC'',
                        reduceOnly = True\<rparr>],
           log := [Trailing_stop_check_missing,
                   Round_quantity 5 (py_float (1 / 100)) (Some 2) 5]\<rparr>)"
proof -
  have nz: "py_float (1 / 100) \<noteq> 0"
    by (simp add: py_float_cent)
  show ?thesis
    by (simp add: check_and_place_trailing_stop_def place_trailing_stop_def round_quantity_eq
        futures_get_open_orders_def futures_create_order_def trailing_stop_request_def
        log_event_def next_response_def failing_placement_world_def no_responses_def
        default_config_def round_quantity_event_filters [OF nz] round_quantity_value_5)
qed

text \<open>
  Claim C10, amended. Take an execution of \<open>check_and_place_trailing_stop\<close> that gets a
  listing without a \<^verbatim>\<open>TRAILING_STOP_MARKET\<close> order. When both submissions of
  \<open>place_trailing_stop\<close> are rejected (\<^verbatim>\<open>BinanceAPIException\<close>), so that no
  order was placed, it still returns normally and the audit log ends with the success
  record, written after the records of the two failures. More generally, whenever the
  placement returns (an order or \<^verbatim>\<open>None\<close>), the success record is the last
  record written. When the placement does not return, because a submission raised
  another exception, that exception reaches the caller and no success record is written.
\<close>

theorem check_and_place_trailing_stop_success_record:
  fixes cfg sg quantity0 w os rest
  defines "quantity \<equiv>
      round_quantity_value (symbol cfg) (next_response (symbol_info_responses w)) quantity0"
    and "rounded \<equiv>
      round_quantity_event (symbol cfg) (next_response (symbol_info_responses w)) quantity0"
    and "result \<equiv> check_and_place_trailing_stop cfg sg quantity0 w"
  assumes listing: "open_orders_responses w = Inr os # rest"
    and absent: "\<not> list_ex (\<lambda>ord. order_type ord = ''TRAILING_STOP_MARKET'') os"
  shows
    "(create_order_responses w
        = Inl (BinanceAPIException m) # Inl (BinanceAPIException m2) # rs \<longrightarrow>
        fst result = Inr ()
        \<and> create_requests (calls (snd result))
            = create_requests (calls w)
              @ [trailing_stop_request cfg sg quantity 1,
                 trailing_stop_request cfg sg quantity (1 / 2)]
        \<and> log (snd result)
            = log w @ [Trailing_stop_check_missing, rounded,
                       Error_placing_trailing_stop (BinanceAPIException m),
                       Retrying_trailing_stop quantity,
                       Error_placing_trailing_stop_on_retry (BinanceAPIException m2),
                       Trailing_stop_action_success])
     \<and> (placement_returns (create_order_responses w) \<longrightarrow>
          fst result = Inr ()
          \<and> (\<exists>evs. log (snd result)
                = log w @ Trailing_stop_check_missing # evs @ [Trailing_stop_action_success]))
     \<and> (\<not> placement_returns (create_order_responses w) \<longrightarrow>
          (\<exists>e evs. fst result = Inl e \<and> \<not> is_api_exception e
             \<and> log (snd result) = log w @ Trailing_stop_check_missing # evs
             \<and> Trailing_stop_action_success \<notin> set evs))"
proof (intro conjI impI)
  assume "create_order_responses w
            = Inl (BinanceAPIException m) # Inl (BinanceAPIException m2) # rs"
  then show "fst result = Inr ()"
    and "create_requests (calls (snd result))
            = create_requests (calls w)
              @ [trailing_stop_request cfg sg quantity 1,
                 trailing_stop_request cfg sg quantity (1 / 2)]"
    and "log (snd result)
            = log w @ [Trailing_stop_check_missing, rounded,
                       Error_placing_trailing_stop (BinanceAPIException m),
                       Retrying_trailing_stop quantity,
                       Error_placing_trailing_stop_on_retry (BinanceAPIException m2),
                       Trailing_stop_action_success]"
    unfolding result_def quantity_def rounded_def using listing absent
    by (simp_all add: check_and_place_trailing_stop_def futures_get_open_orders_def
        next_response_def log_event_def place_trailing_stop_def round_quantity_eq
        futures_create_order_def Let_def)
next
  assume "placement_returns (create_order_responses w)"
  then show "fst result = Inr ()"
    and "\<exists>evs. log (snd result)
                = log w @ Trailing_stop_check_missing # evs @ [Trailing_stop_action_success]"
    unfolding result_def using listing absent
    by (auto simp: check_and_place_trailing_stop_def futures_get_open_orders_def
        next_response_def log_event_def place_trailing_stop_def round_quantity_eq
        futures_create_order_def placement_returns_def Let_def
        split: sum.splits list.splits)
next
  define w1 where "w1 = log_event Trailing_stop_check_missing
                          (snd (futures_get_open_orders (symbol cfg) w))"
  assume "\<not> placement_returns (create_order_responses w)"
  then have "\<not> placement_returns (create_order_responses w1)"
    by (simp add: w1_def futures_get_open_orders_def log_event_def)
  then obtain e where e: "fst (place_trailing_stop cfg sg quantity0 w1) = Inl e"
    and na: "\<not> is_api_exception e"
    using place_trailing_stop_escapes by blast
  obtain evs where evs: "log (snd (place_trailing_stop cfg sg quantity0 w1)) = log w1 @ evs"
    and none: "Trailing_stop_action_success \<notin> set evs"
    using place_trailing_stop_log by blast
  have "result =
          (case place_trailing_stop cfg sg quantity0 w1 of
             (Inr placed, w2) \<Rightarrow> (Inr (), log_event Trailing_stop_action_success w2)
           | (Inl e, w2) \<Rightarrow>
               if is_api_exception e
               then (Inr (), log_event (Error_checking_trailing_stop e) w2)
               else (Inl e, w2))"
    unfolding result_def check_and_place_trailing_stop_def w1_def using listing absent
    by (simp add: futures_get_open_orders_def next_response_def log_event_def)
  then have r: "result = (Inl e, snd (place_trailing_stop cfg sg quantity0 w1))"
    using e na by (cases "place_trailing_stop cfg sg quantity0 w1") simp
  have "log w1 = log w @ [Trailing_stop_check_missing]"
    by (simp add: w1_def futures_get_open_orders_def log_event_def)
  with r evs none na
  show "\<exists>e evs. fst result = Inl e \<and> \<not> is_api_exception e
             \<and> log (snd result) = log w @ Trailing_stop_check_missing # evs
             \<and> Trailing_stop_action_success \<notin> set evs"
    by auto
qed

text \<open>Both submissions rejected: the log ends with the success record.\<close>

theorem check_and_place_trailing_stop_success_record_witness:
  "log (snd (check_and_place_trailing_stop default_config SHORT 5 rejecting_world))
     = [Trailing_stop_check_missing, Round_quantity 5 (py_float (1 / 100)) (Some 2) 5,
        Error_placing_trailing_stop (BinanceAPIException ''rejected''),
        Retrying_trailing_stop 5,
        Error_placing_trailing_stop_on_retry (BinanceAPIException ''rejected again''),
        Trailing_stop_action_success]"
proof -
  have listing: "open_orders_responses rejecting_world = Inr [] # []"
    by (simp add: rejecting_world_def no_responses_def)
  have absent: "\<not> list_ex (\<lambda>ord. order_type ord = ''TRAILING_STOP_MARKET'') []"
    by simp
  have nz: "py_float (1 / 100) \<noteq> 0"
    by (simp add: py_float_cent)
  from check_and_place_trailing_stop_success_record
         [OF listing absent, where cfg = default_config and sg = SHORT and ?quantity0.0 = 5
            and m = "''rejected''" and ?m2.0 = "''rejected again''" and rs = "[]"]
  show ?thesis
    by (simp add: rejecting_world_def no_responses_def default_config_def next_response_def
        round_quantity_event_filters [OF nz] round_quantity_value_5)
qed

section \<open>Conflict resolution\<close>

text \<open>
  Claim C7, as stated, fails when several \<^verbatim>\<open>STOP_MARKET\<close> orders are open: the loop
  keeps only the last one listed, so one run cancels order 2 and leaves order 1, and a
  second run over the orders that remain cancels order 1 as well. Two runs do not end in
  the state one run ends in.
\<close>

theorem manage_stop_orders_twice_counterexample:
  "cancel_requests (calls (snd (manage_stop_orders default_config LONG two_stops_world)))
     = [2]
   \<and> cancel_requests (calls (snd (manage_stop_orders default_config LONG
        (snd (manage_stop_orders default_config LONG two_stops_world))))) = [2, 1]"
  by (simp add: manage_stop_orders_def futures_get_open_orders_def futures_cancel_order_def
      next_response_def log_event_def default_config_def no_responses_def two_stops_world_def
      orders_after_cancel_def)

text \<open>
  Claim C7, amended. Given the listing \<open>os\<close> that \<^verbatim>\<open>futures_get_open_orders\<close>
  returns: \<open>manage_stop_orders\<close> requests a cancellation if and only if \<open>os\<close> holds
  both a \<^verbatim>\<open>STOP_MARKET\<close> and a \<^verbatim>\<open>TRAILING_STOP_MARKET\<close> order; it then requests
  exactly one, for the last \<^verbatim>\<open>STOP_MARKET\<close> order listed, and with distinct order
  identifiers every \<^verbatim>\<open>TRAILING_STOP_MARKET\<close> order stays open. When only one or
  neither type is listed it does nothing but list. When at most one
  \<^verbatim>\<open>STOP_MARKET\<close> order is listed and the next listing shows the orders left by the
  cancellation, a second run cancels nothing and logs nothing.
\<close>

theorem manage_stop_orders_cancels:
  fixes cfg sg w os rest
  defines "both \<equiv> list_ex (\<lambda>ord. order_type ord = ''STOP_MARKET'') os
                    \<and> list_ex (\<lambda>ord. order_type ord = ''TRAILING_STOP_MARKET'') os"
    and "target \<equiv> orderId (last (filter (\<lambda>ord. order_type ord = ''STOP_MARKET'') os))"
    and "w1 \<equiv> snd (manage_stop_orders cfg sg w)"
  assumes listing: "open_orders_responses w = Inr os # rest"
  shows
    "cancel_requests (calls w1) = cancel_requests (calls w) @ (if both then [target] else [])
     \<and> (both \<longrightarrow>
          (\<exists>ord \<in> set os. orderId ord = target \<and> order_type ord = ''STOP_MARKET'')
          \<and> (distinct (map orderId os) \<longrightarrow>
               filter (\<lambda>ord. order_type ord = ''TRAILING_STOP_MARKET'')
                 (orders_after_cancel target os)
               = filter (\<lambda>ord. order_type ord = ''TRAILING_STOP_MARKET'') os))
     \<and> (\<not> both \<longrightarrow>
          manage_stop_orders cfg sg w =
            (Inr (), w\<lparr>open_orders_responses := rest,
                       calls := calls w @ [Futures_get_open_orders (symbol cfg)]\<rparr>))
     \<and> (length (filter (\<lambda>ord. order_type ord = ''STOP_MARKET'') os) \<le> 1
          \<and> (\<exists>rest'. rest = Inr (if both then orders_after_cancel target os else os) # rest')
          \<longrightarrow> fst (manage_stop_orders cfg sg w1) = Inr ()
              \<and> cancel_requests (calls (snd (manage_stop_orders cfg sg w1)))
                  = cancel_requests (calls w1)
              \<and> log (snd (manage_stop_orders cfg sg w1)) = log w1)"
proof (intro conjI impI)
  show "cancel_requests (calls w1) = cancel_requests (calls w) @ (if both then [target] else [])"
    unfolding w1_def both_def target_def
    using manage_stop_orders_no_conflict [OF listing, of cfg sg]
      manage_stop_orders_conflict(1) [OF listing, of cfg sg]
    by auto
next
  assume both
  then have ne: "filter (\<lambda>ord. order_type ord = ''STOP_MARKET'') os \<noteq> []"
    by (simp add: both_def list_ex_iff filter_empty_conv)
  from last_in_set [OF ne]
  show "\<exists>ord \<in> set os. orderId ord = target \<and> order_type ord = ''STOP_MARKET''"
    unfolding target_def by auto
next
  assume both and "distinct (map orderId os)"
  then show "filter (\<lambda>ord. order_type ord = ''TRAILING_STOP_MARKET'')
                 (orders_after_cancel target os)
               = filter (\<lambda>ord. order_type ord = ''TRAILING_STOP_MARKET'') os"
    unfolding target_def both_def by (simp add: trailing_after_cancel)
next
  assume "\<not> both"
  then show "manage_stop_orders cfg sg w =
            (Inr (), w\<lparr>open_orders_responses := rest,
                       calls := calls w @ [Futures_get_open_orders (symbol cfg)]\<rparr>)"
    unfolding both_def by (rule manage_stop_orders_no_conflict [OF listing])
next
  assume a: "length (filter (\<lambda>ord. order_type ord = ''STOP_MARKET'') os) \<le> 1
          \<and> (\<exists>rest'. rest = Inr (if both then orders_after_cancel target os else os) # rest')"
  then obtain rest' where
    rest: "rest = Inr (if both then orders_after_cancel target os else os) # rest'"
    by blast
  have l1: "open_orders_responses w1
              = Inr (if both then orders_after_cancel target os else os) # rest'"
    unfolding w1_def both_def
    using manage_stop_orders_no_conflict [OF listing, of cfg sg]
      manage_stop_orders_conflict(2) [OF listing, of cfg sg] rest
    by (auto simp: both_def)
  have nb: "\<not> (list_ex (\<lambda>ord. order_type ord = ''STOP_MARKET'')
                  (if both then orders_after_cancel target os else os)
               \<and> list_ex (\<lambda>ord. order_type ord = ''TRAILING_STOP_MARKET'')
                  (if both then orders_after_cancel target os else os))"
  proof (cases both)
    case True
    then have "list_ex (\<lambda>ord. order_type ord = ''STOP_MARKET'') os" by (simp add: both_def)
    with a have "\<not> list_ex (\<lambda>ord. order_type ord = ''STOP_MARKET'')
                     (orders_after_cancel target os)"
      unfolding target_def by (simp add: no_stop_after_cancel)
    with True show ?thesis by simp
  next
    case False
    then have "(if both then orders_after_cancel target os else os) = os" by simp
    with False show ?thesis by (simp add: both_def)
  qed
  have eq: "manage_stop_orders cfg sg w1 =
          (Inr (), w1\<lparr>open_orders_responses := rest',
                       calls := calls w1 @ [Futures_get_open_orders (symbol cfg)]\<rparr>)"
    by (rule manage_stop_orders_no_conflict [OF l1 nb])
  show "fst (manage_stop_orders cfg sg w1) = Inr ()"
    and "cancel_requests (calls (snd (manage_stop_orders cfg sg w1)))
                  = cancel_requests (calls w1)"
    and "log (snd (manage_stop_orders cfg sg w1)) = log w1"
    by (simp_all add: eq)
qed


text \<open>
  Scenario D: exactly the \<^verbatim>\<open>STOP_MARKET\<close> order 11 is cancelled, and a second run
  adds no cancellation.
\<close>

theorem manage_stop_orders_cancels_witness:
  "cancel_requests (calls (snd (manage_stop_orders default_config LONG conflict_world)))
     = [11]
   \<and> cancel_requests (calls (snd (manage_stop_orders default_config LONG
        (snd (manage_stop_orders default_config LONG conflict_world))))) = [11]"
proof -
  have listing: "open_orders_responses conflict_world
      = Inr [\<lparr>orderId = 11, order_type = ''STOP_MARKET''\<rparr>,
             \<lparr>orderId = 12, order_type = ''TRAILING_STOP_MARKET''\<rparr>]
        # [Inr [\<lparr>orderId = 12, order_type = ''TRAILING_STOP_MARKET''\<rparr>]]"
    by (simp add: conflict_world_def no_responses_def)
  from manage_stop_orders_cancels [OF listing, of default_config LONG]
  show ?thesis
    by (simp add: conflict_world_def no_responses_def orders_after_cancel_def)
qed

section \<open>The cycle\<close>




text \<open>
  Claim C9, as stated, fails in three ways. When the last close is 0 the division in
  \<open>calculate_order_quantity\<close> raises: with the signal SHORT and no position the
  iteration submits no order at all and ends in the handler of the loop. When the entry
  is acknowledged and the submission of the trailing stop raises an exception that is not
  a \<^verbatim>\<open>BinanceAPIException\<close>, the exception leaves \<open>place_trailing_stop\<close> and
  \<open>manage_stop_orders\<close> is not run: the open orders are never listed. And the trailing
  stop is not sized to the re-queried quantity but to that quantity rounded once more by
  \<open>place_trailing_stop\<close>: with a balance of \<open>900.05\<close> after the entry and a price of 2
  the re-queried quantity is \<open>4275.23\<close> and the trailing stop is for \<open>4275.22\<close>.
\<close>

theorem run_iteration_flat_signal_counterexample:
  "calculate_ema default_config [1, 0]
     = Inr [\<lparr>close = 1, ema_fast = 1, ema_slow = 1\<rparr>,
            \<lparr>close = 0, ema_fast = 39 / 41, ema_slow = 49 / 50\<rparr>]
   \<and> determine_signal [\<lparr>close = 1, ema_fast = 1, ema_slow = 1\<rparr>,
                       \<lparr>close = 0, ema_fast = 39 / 41, ema_slow = 49 / 50\<rparr>] = Some SHORT
   \<and> create_requests (calls (run_iteration default_config zero_price_world)) = []
   \<and> log (run_iteration default_config zero_price_world)
       = [Error_in_main_loop ZeroDivisionError, Attempting_reconnection, Leverage_set,
          Reconnection_successful]
   \<and> calls (run_iteration default_config failing_stop_world)
       = [Futures_klines ''ETHUSDT'' ''5m'' 100, Futures_position_information ''ETHUSDT'',
          Futures_account_balance, Get_symbol_info ''ETHUSDT'',
          Futures_create_order
            \<lparr>request_symbol = ''ETHUSDT'', request_side = SIDE_BUY, request_type = ''MARKET'',
             request_quantity = 4750, callbackRate = None, timeInForce = None,
             reduceOnly = False\<rparr>,
          Futures_account_balance, Get_symbol_info ''ETHUSDT'', Get_symbol_info ''ETHUSDT'',
          Futures_create_order
            \<lparr>request_symbol = ''ETHUSDT'', request_side = SIDE_SELL,
             request_type = ''TRAILING_STOP_MARKET'', request_quantity = 4275,
             callbackRate = Some 1, timeInForce = Some ''GTC'', reduceOnly = True\<rparr>,
          Client_init, Futures_change_leverage ''ETHUSDT'' 10]
   \<and> calculate_order_quantity_value ''ETHUSDT'' (py_float (90005 / 100))
         (py_float (95 / 100)) 10 (symbol_filters (1 / 100) 2) 2
       = Inr (py_float (427523 / 100))
   \<and> calls (run_iteration default_config second_balance_world)
       = [Futures_klines ''ETHUSDT'' ''5m'' 100, Futures_position_information ''ETHUSDT'',
          Futures_account_balance, Get_symbol_info ''ETHUSDT'',
          Futures_create_order
            \<lparr>request_symbol = ''ETHUSDT'', request_side = SIDE_BUY, request_type = ''MARKET'',
             request_quantity = 4750, callbackRate = None, timeInForce = None,
             reduceOnly = False\<rparr>,
          Futures_account_balance, Get_symbol_info ''ETHUSDT'', Get_symbol_info ''ETHUSDT'',
          Futures_create_order
            \<lparr>request_symbol = ''ETHUSDT'', request_side = SIDE_SELL,
             request_type = ''TRAILING_STOP_MARKET'',
             request_quantity = py_float (427522 / 100),
             callbackRate = Some 1, timeInForce = Some ''GTC'', reduceOnly = True\<rparr>,
          Futures_get_open_orders ''ETHUSDT'']
   \<and> py_float (427522 / 100) < py_float (427523 / 100)"
proof (intro conjI)
  show "calculate_ema default_config [1, 0]
     = Inr [\<lparr>close = 1, ema_fast = 1, ema_slow = 1\<rparr>,
            \<lparr>close = 0, ema_fast = 39 / 41, ema_slow = 49 / 50\<rparr>]"
    by (simp add: calculate_ema_def ewm_mean_def default_config_def)
  show "determine_signal [\<lparr>close = 1, ema_fast = 1, ema_slow = 1\<rparr>,
                       \<lparr>close = 0, ema_fast = 39 / 41, ema_slow = 49 / 50\<rparr>] = Some SHORT"
    by (simp add: determine_signal_def)
  show "create_requests (calls (run_iteration default_config zero_price_world)) = []"
    by (simp add: zero_price_world_def run_simps)
  show "log (run_iteration default_config zero_price_world)
       = [Error_in_main_loop ZeroDivisionError, Attempting_reconnection, Leverage_set,
          Reconnection_successful]"
    by (simp add: zero_price_world_def run_simps)
  show "calls (run_iteration default_config failing_stop_world)
       = [Futures_klines ''ETHUSDT'' ''5m'' 100, Futures_position_information ''ETHUSDT'',
          Futures_account_balance, Get_symbol_info ''ETHUSDT'',
          Futures_create_order
            \<lparr>request_symbol = ''ETHUSDT'', request_side = SIDE_BUY, request_type = ''MARKET'',
             request_quantity = 4750, callbackRate = None, timeInForce = None,
             reduceOnly = False\<rparr>,
          Futures_account_balance, Get_symbol_info ''ETHUSDT'', Get_symbol_info ''ETHUSDT'',
          Futures_create_order
            \<lparr>request_symbol = ''ETHUSDT'', request_side = SIDE_SELL,
             request_type = ''TRAILING_STOP_MARKET'', request_quantity = 4275,
             callbackRate = Some 1, timeInForce = Some ''GTC'', reduceOnly = True\<rparr>,
          Client_init, Futures_change_leverage ''ETHUSDT'' 10]"
    by (simp add: failing_stop_world_def run_simps)
  show "calculate_order_quantity_value ''ETHUSDT'' (py_float (90005 / 100))
         (py_float (95 / 100)) 10 (symbol_filters (1 / 100) 2) 2
       = Inr (py_float (427523 / 100))"
    by (rule calc_entry_90005)
  show "calls (run_iteration default_config second_balance_world)
       = [Futures_klines ''ETHUSDT'' ''5m'' 100, Futures_position_information ''ETHUSDT'',
          Futures_account_balance, Get_symbol_info ''ETHUSDT'',
          Futures_create_order
            \<lparr>request_symbol = ''ETHUSDT'', request_side = SIDE_BUY, request_type = ''MARKET'',
             request_quantity = 4750, callbackRate = None, timeInForce = None,
             reduceOnly = False\<rparr>,
          Futures_account_balance, Get_symbol_info ''ETHUSDT'', Get_symbol_info ''ETHUSDT'',
          Futures_create_order
            \<lparr>request_symbol = ''ETHUSDT'', request_side = SIDE_SELL,
             request_type = ''TRAILING_STOP_MARKET'',
             request_quantity = py_float (427522 / 100),
             callbackRate = Some 1, timeInForce = Some ''GTC'', reduceOnly = True\<rparr>,
          Futures_get_open_orders ''ETHUSDT'']"
    by (simp add: second_balance_world_def run_simps)
  show "py_float (427522 / 100) < py_float (427523 / 100)"
    unfolding py_float_427522 py_float_427523 by simp
qed

text \<open>
  Claim C9, amended. In an iteration that fetched the candles, computed the averages,
  found no open position and has a signal \<open>sg\<close>, with a last close other than 0: the
  first order submitted is a market order of the symbol, a buy for LONG and a sell for
  SHORT, not reduce-only, for the quantity \<open>calculate_order_quantity\<close> returns at the
  last close. If the exchange rejects it or the call fails, no other order is submitted
  and the open orders are not listed in the iteration. If it is accepted, the balance and
  the filters are queried again and the quantity is computed anew; the orders submitted
  next are the trailing stop with callback rate 1 and, if that is rejected with a
  \<^verbatim>\<open>BinanceAPIException\<close>, its retry with callback rate \<open>1 / 2\<close>, and nothing
  else: reduce-only \<^verbatim>\<open>TRAILING_STOP_MARKET\<close> orders, good till cancelled, a sell for
  LONG and a buy for SHORT, for the re-queried quantity rounded once more by
  \<open>round_quantity\<close>. If that placement returns, the listing of \<open>manage_stop_orders\<close>
  is the next call; if it does not return, the open orders are not listed.
\<close>

theorem run_iteration_flat_signal:
  fixes cfg w klines krest df positions prest sg
  defines "entry_price \<equiv> close (last df)"
  defines "entry_quantity \<equiv>
      round_quantity_value (symbol cfg) (next_response (symbol_info_responses w))
        (float_div
           (float_mul
              (float_mul (available_balance_value (next_response (balance_responses w)))
                 (base_capital_pct cfg))
              (leverage cfg))
           entry_price)"
    and "requeried \<equiv>
      round_quantity_value (symbol cfg) (next_response (tl (symbol_info_responses w)))
        (float_div
           (float_mul
              (float_mul (available_balance_value (next_response (tl (balance_responses w))))
                 (base_capital_pct cfg))
              (leverage cfg))
           entry_price)"
  defines "stop_quantity \<equiv>
      round_quantity_value (symbol cfg) (next_response (tl (tl (symbol_info_responses w))))
        requeried"
  defines "entry \<equiv>
      \<lparr>request_symbol = symbol cfg,
       request_side = (if sg = LONG then SIDE_BUY else SIDE_SELL),
       request_type = ''MARKET'', request_quantity = entry_quantity,
       callbackRate = None, timeInForce = None, reduceOnly = False\<rparr>"
    and "stop \<equiv> \<lambda>rate.
      \<lparr>request_symbol = symbol cfg,
       request_side = (if sg = LONG then SIDE_SELL else SIDE_BUY),
       request_type = ''TRAILING_STOP_MARKET'', request_quantity = stop_quantity,
       callbackRate = Some rate, timeInForce = Some ''GTC'', reduceOnly = True\<rparr>"
  assumes k: "klines_responses w = Inr klines # krest"
    and e: "calculate_ema cfg klines = Inr df"
    and p: "position_responses w = Inr positions # prest"
    and flat: "filter (\<lambda>pos. position_symbol pos = symbol cfg
                              \<and> py_float (positionAmt pos) \<noteq> 0) positions
                 = []"
    and s: "determine_signal df = Some sg"
    and nz: "close (last df) \<noteq> 0"
  shows
    "calculate_order_quantity_value (symbol cfg)
        (available_balance_value (next_response (balance_responses w)))
        (base_capital_pct cfg) (leverage cfg) (next_response (symbol_info_responses w))
        entry_price = Inr entry_quantity
     \<and> calculate_order_quantity_value (symbol cfg)
        (available_balance_value (next_response (tl (balance_responses w))))
        (base_capital_pct cfg) (leverage cfg) (next_response (tl (symbol_info_responses w)))
        entry_price = Inr requeried
     \<and> (\<exists>post.
          calls (run_iteration cfg w) =
            calls w @ [Futures_klines (symbol cfg) (interval cfg) 100,
                       Futures_position_information (symbol cfg),
                       Futures_account_balance, Get_symbol_info (symbol cfg),
                       Futures_create_order entry]
              @ post
          \<and> (case next_response (create_order_responses w) of
                Inl ex \<Rightarrow>
                  create_requests post = []
                  \<and> Futures_get_open_orders (symbol cfg) \<notin> set post
              | Inr ord \<Rightarrow>
                  (\<exists>post'.
                     post = [Futures_account_balance, Get_symbol_info (symbol cfg),
                             Get_symbol_info (symbol cfg)]
                            @ map Futures_create_order
                                (if \<exists>m. next_response (tl (create_order_responses w))
                                          = Inl (BinanceAPIException m)
                                 then [stop 1, stop (1 / 2)] else [stop 1])
                            @ post'
                     \<and> create_requests post' = []
                     \<and> (if placement_returns (tl (create_order_responses w))
                        then \<exists>post''. post' = Futures_get_open_orders (symbol cfg) # post''
                        else Futures_get_open_orders (symbol cfg) \<notin> set post'))))"
proof (intro conjI)
  show "calculate_order_quantity_value (symbol cfg)
        (available_balance_value (next_response (balance_responses w)))
        (base_capital_pct cfg) (leverage cfg) (next_response (symbol_info_responses w))
        entry_price = Inr entry_quantity"
    using nz
    by (simp add: calculate_order_quantity_value_def entry_quantity_def entry_price_def Let_def)
  show "calculate_order_quantity_value (symbol cfg)
        (available_balance_value (next_response (tl (balance_responses w))))
        (base_capital_pct cfg) (leverage cfg) (next_response (tl (symbol_info_responses w)))
        entry_price = Inr requeried"
    using nz
    by (simp add: calculate_order_quantity_value_def requeried_def entry_price_def Let_def)
next
  define rejected where "rejected \<longleftrightarrow>
    (\<exists>m. next_response (tl (create_order_responses w)) = Inl (BinanceAPIException m))"
  define tss where "tss = (if rejected then [stop 1, stop (1 / 2)] else [stop 1])"
  define listing where "listing = Futures_get_open_orders (symbol cfg)"
  have tss: "trailing_stop_submissions cfg sg stop_quantity (tl (create_order_responses w))
               = tss"
    unfolding tss_def rejected_def
    by (simp add: trailing_stop_submissions_eq trailing_stop_request_def stop_def)
  have me: "market_order_request cfg sg entry_quantity = entry"
    by (simp add: market_order_request_def entry_def)
  obtain post1 where t: "calls (snd (run_try cfg w)) =
       calls w @ [Futures_klines (symbol cfg) (interval cfg) 100,
                  Futures_position_information (symbol cfg),
                  Futures_account_balance, Get_symbol_info (symbol cfg),
                  Futures_create_order entry]
         @ (case next_response (create_order_responses w) of
              Inl ex \<Rightarrow> []
            | Inr ord \<Rightarrow>
                [Futures_account_balance, Get_symbol_info (symbol cfg),
                 Get_symbol_info (symbol cfg)]
                @ map Futures_create_order tss
                @ (if placement_returns (tl (create_order_responses w))
                   then listing # post1 else []))"
    and p1: "create_requests post1 = []"
    using run_try_flat_signal_calls [OF k e p flat s nz]
    unfolding entry_quantity_def stop_quantity_def requeried_def entry_price_def
      tss [unfolded stop_quantity_def requeried_def entry_price_def]
      me [unfolded entry_quantity_def entry_price_def] listing_def
    by blast
  obtain post2 where r: "calls (run_iteration cfg w) = calls (snd (run_try cfg w)) @ post2"
    and p2: "create_requests post2 = []"
    and l2: "listing \<notin> set post2"
    using run_iteration_calls [of cfg w "symbol cfg"] unfolding listing_def by blast
  define post' where "post' =
    (if placement_returns (tl (create_order_responses w)) then listing # post1 else [])
    @ post2"
  define post where "post =
    (case next_response (create_order_responses w) of
       Inl ex \<Rightarrow> post2
     | Inr ord \<Rightarrow>
         [Futures_account_balance, Get_symbol_info (symbol cfg), Get_symbol_info (symbol cfg)]
         @ map Futures_create_order tss @ post')"
  have c: "calls (run_iteration cfg w) =
            calls w @ [Futures_klines (symbol cfg) (interval cfg) 100,
                       Futures_position_information (symbol cfg),
                       Futures_account_balance, Get_symbol_info (symbol cfg),
                       Futures_create_order entry]
              @ post"
    unfolding r t post_def post'_def by (simp split: sum.splits)
  have a: "create_requests post' = []"
    unfolding post'_def listing_def using p1 p2 by simp
  have b: "if placement_returns (tl (create_order_responses w))
           then \<exists>post''. post' = listing # post''
           else listing \<notin> set post'"
    unfolding post'_def using l2 by simp
  have d: "(case next_response (create_order_responses w) of
                Inl ex \<Rightarrow> create_requests post = [] \<and> listing \<notin> set post
              | Inr ord \<Rightarrow>
                  (\<exists>post'.
                     post = [Futures_account_balance, Get_symbol_info (symbol cfg),
                             Get_symbol_info (symbol cfg)]
                            @ map Futures_create_order tss @ post'
                     \<and> create_requests post' = []
                     \<and> (if placement_returns (tl (create_order_responses w))
                        then \<exists>post''. post' = listing # post''
                        else listing \<notin> set post')))"
  proof (cases "next_response (create_order_responses w)")
    case (Inl ex)
    then show ?thesis using p2 l2 by (simp add: post_def)
  next
    case (Inr ord)
    then have "post = [Futures_account_balance, Get_symbol_info (symbol cfg),
                       Get_symbol_info (symbol cfg)]
                      @ map Futures_create_order tss @ post'"
      by (simp add: post_def)
    with a b Inr show ?thesis by auto
  qed
  from c d show "\<exists>post.
          calls (run_iteration cfg w) =
            calls w @ [Futures_klines (symbol cfg) (interval cfg) 100,
                       Futures_position_information (symbol cfg),
                       Futures_account_balance, Get_symbol_info (symbol cfg),
                       Futures_create_order entry]
              @ post
          \<and> (case next_response (create_order_responses w) of
                Inl ex \<Rightarrow>
                  create_requests post = []
                  \<and> Futures_get_open_orders (symbol cfg) \<notin> set post
              | Inr ord \<Rightarrow>
                  (\<exists>post'.
                     post = [Futures_account_balance, Get_symbol_info (symbol cfg),
                             Get_symbol_info (symbol cfg)]
                            @ map Futures_create_order
                                (if \<exists>m. next_response (tl (create_order_responses w))
                                          = Inl (BinanceAPIException m)
                                 then [stop 1, stop (1 / 2)] else [stop 1])
                            @ post'
                     \<and> create_requests post' = []
                     \<and> (if placement_returns (tl (create_order_responses w))
                        then \<exists>post''. post' = Futures_get_open_orders (symbol cfg) # post''
                        else Futures_get_open_orders (symbol cfg) \<notin> set post')))"
    unfolding tss_def rejected_def listing_def by blast
qed

text \<open>
  A long entry: the market buy of 4750, then the balance and filters again, the trailing
  stop of 4275, then the listing of open orders.
\<close>

theorem run_iteration_flat_signal_witness:
  "calls (run_iteration default_config long_entry_world)
     = [Futures_klines ''ETHUSDT'' ''5m'' 100, Futures_position_information ''ETHUSDT'',
        Futures_account_balance, Get_symbol_info ''ETHUSDT'',
        Futures_create_order
          \<lparr>request_symbol = ''ETHUSDT'', request_side = SIDE_BUY, request_type = ''MARKET'',
           request_quantity = 4750, callbackRate = None, timeInForce = None,
           reduceOnly = False\<rparr>,
        Futures_account_balance, Get_symbol_info ''ETHUSDT'', Get_symbol_info ''ETHUSDT'',
        Futures_create_order
          \<lparr>request_symbol = ''ETHUSDT'', request_side = SIDE_SELL,
           request_type = ''TRAILING_STOP_MARKET'', request_quantity = 4275,
           callbackRate = Some 1, timeInForce = Some ''GTC'', reduceOnly = True\<rparr>,
        Futures_get_open_orders ''ETHUSDT'']"
proof -
  have k: "klines_responses long_entry_world = Inr [1, 2] # []"
    and p: "position_responses long_entry_world = Inr [] # []"
    by (simp_all add: long_entry_world_def no_responses_def)
  have e: "calculate_ema default_config [1, 2]
             = Inr [\<lparr>close = 1, ema_fast = 1, ema_slow = 1\<rparr>,
                    \<lparr>close = 2, ema_fast = 43 / 41, ema_slow = 51 / 50\<rparr>]"
    by (simp add: calculate_ema_def ewm_mean_def default_config_def)
  have flat: "filter (\<lambda>pos. position_symbol pos = symbol default_config
                              \<and> py_float (positionAmt pos) \<noteq> 0) [] = []"
    by simp
  have s: "determine_signal [\<lparr>close = 1, ema_fast = 1, ema_slow = 1\<rparr>,
                             \<lparr>close = 2, ema_fast = 43 / 41, ema_slow = 51 / 50\<rparr>]
             = Some LONG"
    by (simp add: determine_signal_def)
  have nz: "close (last [\<lparr>close = 1, ema_fast = 1, ema_slow = 1\<rparr>,
                         \<lparr>close = 2, ema_fast = 43 / 41, ema_slow = 51 / 50\<rparr>]) \<noteq> 0"
    by simp
  from run_iteration_flat_signal [OF k e p flat s nz]
  show ?thesis
    by (simp add: long_entry_world_def run_simps)
qed

end
